theory Spec2Isabelle
  imports Complex_Main "HOL-Library.Sublist" "HOL-Library.AList"
begin

section \<open>Values, errors and the string primitives of the host language\<close>

text \<open>
  A text is the list of the bytes of its UTF-8 encoding; the markers and indicator words
  are ASCII, and so are all messages but one check mark.

  A float of the program is represented by a rational number: the float is the double
  nearest to it, \<open>to_double\<close>. A float written as a decimal, such as a threshold or
  the coefficient rounded to four digits, is represented by that decimal, and
  comparisons are written on these rationals. Where the program depends on the binary
  expansion of a float, the model goes to the double itself and works on it exactly: the
  quotient of the two counts, rounding to decimal digits, and decimal formatting.
\<close>

datatype error = ValidationError

text \<open>The values a caller may put into the \<open>user_context\<close> dictionary.\<close>

datatype pyval = PyNone | PyBool bool | PyInt int | PyStr string

text \<open>Truth value of a Python object, as tested by \<open>if x:\<close>.\<close>

fun truthy :: "pyval \<Rightarrow> bool" where
  "truthy PyNone = False"
| "truthy (PyBool b) = b"
| "truthy (PyInt i) = (i \<noteq> 0)"
| "truthy (PyStr s) = (s \<noteq> [])"

text \<open>
  A dictionary with string keys, kept as an association list in insertion order;
  \<open>dict_get\<close> is \<open>d.get(key, default)\<close>.
\<close>

type_synonym pydict = "(string \<times> pyval) list"

definition dict_get :: "pydict \<Rightarrow> string \<Rightarrow> pyval \<Rightarrow> pyval" where
  "dict_get d k dflt = (case map_of d k of None \<Rightarrow> dflt | Some v \<Rightarrow> v)"

text \<open>
  \<open>str.lower()\<close> follows the case mapping of Unicode, a table that is no part of the
  sources. The functions that call it take it as their first argument \<open>lower\<close>, and what
  is proved of them holds for every such function. On a text of ASCII characters
  \<open>str.lower()\<close> moves the letters \<open>A\<close> to \<open>Z\<close> to \<open>a\<close> to \<open>z\<close> and keeps every other
  character; \<open>ascii_lower\<close> is this mapping, for the instances that run the functions on
  ASCII texts.
\<close>

definition ascii_lower_char :: "char \<Rightarrow> char" where
  "ascii_lower_char c =
     (let n = (of_char c :: nat) in if 65 \<le> n \<and> n \<le> 90 then char_of (n + 32) else c)"

definition ascii_lower :: "string \<Rightarrow> string" where
  "ascii_lower s = map ascii_lower_char s"

text \<open>
  \<open>s.count(sub)\<close>: the number of non-overlapping occurrences of \<open>sub\<close> in \<open>s\<close>, found
  from left to right; after a match the search resumes behind it. The empty pattern
  matches before every character and at the end; a character begins at every byte that
  is no continuation byte of UTF-8.
\<close>

definition utf8_continuation :: "char \<Rightarrow> bool" where
  "utf8_continuation c = (let n = (of_char c :: nat) in 128 \<le> n \<and> n < 192)"

function str_count :: "string \<Rightarrow> string \<Rightarrow> nat" where
  "str_count s sub =
     (if sub = [] then length (filter (\<lambda>c. \<not> utf8_continuation c) s) + 1
      else if s = [] then 0
      else if prefix sub s then 1 + str_count (drop (length sub) s) sub
      else str_count (tl s) sub)"
  by pat_completeness auto
termination
  by (relation "measure (\<lambda>(s, sub). length s)") auto

text \<open>\<open>sub in s\<close> on strings.\<close>

definition str_contains :: "string \<Rightarrow> string \<Rightarrow> bool" where
  "str_contains sub s = sublist sub s"

text \<open>Rounding to the nearest integer, to the even one of two that are equally near.\<close>

definition round_half_even :: "rat \<Rightarrow> int" where
  "round_half_even y =
     (let f = \<lfloor>y\<rfloor>; d = y - of_int f
      in if d < 1 / 2 then f else if 1 / 2 < d then f + 1 else if even f then f else f + 1)"

text \<open>
  The double nearest to a rational (IEEE 754 binary64, round to nearest, ties to even):
  with \<open>e\<close> the exponent of the argument, \<open>2 ^ e \<le> \<bar>x\<bar> < 2 ^ (e + 1)\<close>, and not below the
  exponent \<open>- 1022\<close> of the subnormal numbers, the argument is rounded to a multiple of
  \<open>2 ^ (e - 52)\<close>. \<open>log2_up\<close> finds the exponent of an argument from 1 on by halving,
  \<open>log2_down\<close> that of an argument below 1 by doubling. Arguments beyond the largest
  double do not occur.
\<close>

function log2_up :: "rat \<Rightarrow> int" where
  "log2_up x = (if x < 2 then 0 else 1 + log2_up (x / 2))"
  by pat_completeness auto
termination
proof (relation "measure (\<lambda>x. nat \<lfloor>x\<rfloor>)")
  show "wf (measure (\<lambda>x::rat. nat \<lfloor>x\<rfloor>))" by simp
next
  fix x :: rat
  assume "\<not> x < 2"
  then have x: "2 \<le> x" by simp
  then have "2 \<le> \<lfloor>x\<rfloor>" by (simp add: le_floor_iff)
  then have "(2::rat) \<le> of_int \<lfloor>x\<rfloor>" by linarith
  moreover have "x < of_int \<lfloor>x\<rfloor> + 1" by linarith
  ultimately have "x / 2 < of_int \<lfloor>x\<rfloor>" by linarith
  then have l: "\<lfloor>x / 2\<rfloor> < \<lfloor>x\<rfloor>" by (simp add: floor_less_iff)
  have "0 \<le> \<lfloor>x / 2\<rfloor>" using x by simp
  then have "nat \<lfloor>x / 2\<rfloor> < nat \<lfloor>x\<rfloor>" using l by (simp only: nat_less_eq_zless)
  then show "(x / 2, x) \<in> measure (\<lambda>x. nat \<lfloor>x\<rfloor>)" by simp
qed

function log2_down :: "rat \<Rightarrow> int" where
  "log2_down x = (if 0 < x \<and> x < 1 then log2_down (2 * x) - 1 else 0)"
  by pat_completeness auto
termination
proof (relation "measure (\<lambda>x. nat \<lfloor>1 / x\<rfloor>)")
  show "wf (measure (\<lambda>x::rat. nat \<lfloor>1 / x\<rfloor>))" by simp
next
  fix x :: rat
  assume a: "0 < x \<and> x < 1"
  define y where "y = 1 / x"
  have y: "1 \<le> y" using a by (simp add: y_def)
  then have "1 \<le> \<lfloor>y\<rfloor>" by (simp add: le_floor_iff)
  then have "(1::rat) \<le> of_int \<lfloor>y\<rfloor>" by linarith
  moreover have "y < of_int \<lfloor>y\<rfloor> + 1" by linarith
  ultimately have "y / 2 < of_int \<lfloor>y\<rfloor>" by linarith
  then have l: "\<lfloor>y / 2\<rfloor> < \<lfloor>y\<rfloor>" by (simp add: floor_less_iff)
  have "0 \<le> \<lfloor>y / 2\<rfloor>" using y by simp
  then have "nat \<lfloor>y / 2\<rfloor> < nat \<lfloor>y\<rfloor>" using l by (simp only: nat_less_eq_zless)
  moreover have "y / 2 = 1 / (2 * x)" by (simp add: y_def)
  ultimately have "nat \<lfloor>1 / (2 * x)\<rfloor> < nat \<lfloor>1 / x\<rfloor>" by (simp only: y_def)
  then show "(2 * x, x) \<in> measure (\<lambda>x. nat \<lfloor>1 / x\<rfloor>)" by simp
qed

definition floor_log2 :: "rat \<Rightarrow> int" where
  "floor_log2 x = (if 1 \<le> x then log2_up x else log2_down x)"

definition pow2 :: "int \<Rightarrow> rat" where
  "pow2 k = (if 0 \<le> k then 2 ^ nat k else 1 / 2 ^ nat (- k))"

definition to_double :: "rat \<Rightarrow> rat" where
  "to_double x =
     (if x = 0 then 0
      else let e = max (floor_log2 \<bar>x\<bar>) (- 1022);
               ulp = pow2 (e - 52)
           in sgn x * of_int (round_half_even (\<bar>x\<bar> / ulp)) * ulp)"

text \<open>
  \<open>round(x, ndigits)\<close> on a float: the decimal with \<open>ndigits\<close> digits nearest to the
  double, the even one of two that are equally near.
\<close>

definition py_round :: "rat \<Rightarrow> nat \<Rightarrow> rat" where
  "py_round x ndigits = of_int (round_half_even (to_double x * 10 ^ ndigits)) / 10 ^ ndigits"

text \<open>
  Decimal output: the formats \<open>:.2f\<close> and \<open>:.0%\<close> of an f-string. Both print the
  digits nearest to the double; the percentage is taken of the double times 100, itself
  a double.
\<close>

definition digit_char :: "nat \<Rightarrow> char" where
  "digit_char n = ''0123456789'' ! n"

function show_nat :: "nat \<Rightarrow> string" where
  "show_nat n = (if n < 10 then [digit_char n] else show_nat (n div 10) @ [digit_char (n mod 10)])"
  by pat_completeness auto
termination
  by (relation "measure id") auto

definition format_2f :: "rat \<Rightarrow> string" where
  "format_2f x =
     (let n = nat (round_half_even (to_double \<bar>x\<bar> * 100))
      in (if x < 0 then ''-'' else []) @ show_nat (n div 100) @ ''.'' @
         [digit_char (n mod 100 div 10), digit_char (n mod 10)])"

definition format_pct0 :: "rat \<Rightarrow> string" where
  "format_pct0 x =
     (if x < 0 then ''-'' else []) @
     show_nat (nat (round_half_even (to_double (to_double \<bar>x\<bar> * 100)))) @ ''%''"

definition NL :: string where
  "NL = [CHR 0x0A]"

text \<open>The check mark U+2713 that opens three of the notes, in UTF-8.\<close>

definition CHECK_MARK :: string where
  "CHECK_MARK = [CHR 0xE2, CHR 0x9C, CHR 0x93]"

section \<open>The lexicon (\<open>protocol.py\<close>)\<close>

definition SEPARATION_MARKERS :: "string list" where
  "SEPARATION_MARKERS =
    [''fear'', ''lack'', ''impossible'', ''us versus them'', ''judgement'',
     ''crisis'', ''scarcity'', ''division'', ''conflict'', ''enemy'',
     ''zero-sum'', ''my way'', ''compete'', ''dominate'', ''control'',
     ''threat'', ''danger'', ''attack'', ''defend'', ''protect'',
     ''limited'', ''finite'', ''not enough'', ''mine'', ''yours'',
     ''separate'', ''isolated'', ''alone'', ''abandoned'', ''rejected'',
     ''failure'', ''loss'', ''defeat'', ''victim'', ''powerless'',
     ''hate'', ''anger'', ''resentment'', ''revenge'', ''punishment'',
     ''wrong'', ''bad'', ''evil'', ''sin'', ''guilt'',
     ''shame'', ''blame'', ''fault'', ''mistake'', ''error'',
     ''weak'', ''inferior'', ''less than'', ''unworthy'', ''inadequate'',
     ''impossible'', ''can'' @ [CHR 0x27] @ ''t'', ''won'' @ [CHR 0x27] @ ''t'', ''never'', ''hopeless'',
     ''desperate'', ''anxious'', ''worried'', ''stressed'', ''overwhelmed'',
     ''chaos'', ''disorder'', ''destruction'', ''collapse'', ''end'',
     ''death'', ''dying'', ''terminal'', ''fatal'', ''doomed'',
     ''exclusive'', ''elite'', ''superior'', ''better than'', ''privilege'',
     ''hierarchy'', ''rank'', ''status'', ''class'', ''caste'',
     ''border'', ''boundary'', ''wall'', ''barrier'', ''fence'',
     ''restriction'', ''limitation'', ''constraint'', ''prohibition'', ''ban'',
     ''competition'', ''rivalry'', ''opponent'', ''adversary'', ''foe'']"

definition UNITY_MARKERS :: "string list" where
  "UNITY_MARKERS =
    [''love'', ''unity'', ''co-create'', ''abundance'', ''possibility'',
     ''solution'', ''harmony'', ''peace'', ''together'', ''collaboration'',
     ''shared source'', ''potential'', ''oneness'', ''wholeness'', ''integration'',
     ''connection'', ''relationship'', ''bond'', ''link'', ''bridge'',
     ''infinite'', ''unlimited'', ''boundless'', ''endless'', ''eternal'',
     ''collective'', ''community'', ''all beings'', ''everyone'', ''humanity'',
     ''together'', ''united'', ''joined'', ''merged'', ''combined'',
     ''success'', ''victory'', ''triumph'', ''achievement'', ''accomplishment'',
     ''empowerment'', ''strength'', ''capability'', ''capacity'', ''ability'',
     ''compassion'', ''kindness'', ''care'', ''support'', ''help'',
     ''forgiveness'', ''acceptance'', ''understanding'', ''empathy'', ''sympathy'',
     ''right'', ''good'', ''virtue'', ''merit'', ''worth'',
     ''honor'', ''respect'', ''dignity'', ''value'', ''appreciation'',
     ''strong'', ''capable'', ''worthy'', ''deserving'', ''adequate'',
     ''possible'', ''can'', ''will'', ''always'', ''hopeful'',
     ''calm'', ''peaceful'', ''serene'', ''tranquil'', ''relaxed'',
     ''order'', ''harmony'', ''balance'', ''equilibrium'', ''stability'',
     ''life'', ''living'', ''vital'', ''vibrant'', ''thriving'',
     ''inclusive'', ''open'', ''welcoming'', ''accepting'', ''embracing'',
     ''equality'', ''fairness'', ''justice'', ''equity'', ''balance'',
     ''opening'', ''gateway'', ''portal'', ''passage'', ''access'',
     ''freedom'', ''liberty'', ''autonomy'', ''independence'', ''sovereignty'',
     ''cooperation'', ''partnership'', ''alliance'', ''synergy'', ''symbiosis'',
     ''trust'', ''faith'', ''belief'', ''confidence'', ''assurance'',
     ''joy'', ''happiness'', ''delight'', ''pleasure'', ''bliss'',
     ''gratitude'', ''thankfulness'', ''appreciation'', ''acknowledgment'', ''recognition'',
     ''growth'', ''development'', ''evolution'', ''progress'', ''advancement'',
     ''creation'', ''generation'', ''manifestation'', ''emergence'', ''birth'',
     ''light'', ''illumination'', ''clarity'', ''insight'', ''wisdom'',
     ''truth'', ''authenticity'', ''genuineness'', ''sincerity'', ''honesty'',
     ''beauty'', ''grace'', ''elegance'', ''refinement'', ''excellence'']"

section \<open>Content types and the detected context (\<open>context.py\<close>)\<close>

datatype ContentType =
  FICTION | HORROR | COMEDY | SATIRE | TECHNICAL | BUSINESS | PERSONAL | ACADEMIC
  | SPIRITUAL | ARTISTIC | JOURNALISTIC | UNKNOWN

fun ContentType_value :: "ContentType \<Rightarrow> string" where
  "ContentType_value FICTION = ''fiction''"
| "ContentType_value HORROR = ''horror''"
| "ContentType_value COMEDY = ''comedy''"
| "ContentType_value SATIRE = ''satire''"
| "ContentType_value TECHNICAL = ''technical''"
| "ContentType_value BUSINESS = ''business''"
| "ContentType_value PERSONAL = ''personal''"
| "ContentType_value ACADEMIC = ''academic''"
| "ContentType_value SPIRITUAL = ''spiritual''"
| "ContentType_value ARTISTIC = ''artistic''"
| "ContentType_value JOURNALISTIC = ''journalistic''"
| "ContentType_value UNKNOWN = ''unknown''"

definition ContentType_members :: "ContentType list" where
  "ContentType_members =
     [FICTION, HORROR, COMEDY, SATIRE, TECHNICAL, BUSINESS, PERSONAL, ACADEMIC,
      SPIRITUAL, ARTISTIC, JOURNALISTIC, UNKNOWN]"

text \<open>
  \<open>ContentType(v)\<close>, the lookup of a member by its value. \<open>None\<close> stands for the
  \<open>ValueError\<close> that the lookup raises when no member has the value \<open>v\<close>.
\<close>

definition ContentType_of_value :: "pyval \<Rightarrow> ContentType option" where
  "ContentType_of_value v =
     (case v of
        PyStr s \<Rightarrow> find (\<lambda>t. ContentType_value t = s) ContentType_members
      | _ \<Rightarrow> None)"

record ContentContext =
  content_type :: ContentType
  genre :: pyval
  intent :: pyval
  audience :: pyval
  creative_license :: pyval
  confidence :: rat
  metadata :: pydict

text \<open>
  The dictionary returned by \<open>contextualize_coefficient\<close>; the keys \<open>context\<close>,
  \<open>interpretation\<close> and \<open>notes\<close> are the fields \<open>cd_context\<close>, \<open>cd_interpretation\<close> and
  \<open>cd_notes\<close>.
\<close>

record context_data =
  raw_coefficient :: rat
  cd_context :: ContentContext
  cd_interpretation :: string
  cd_notes :: "string list"
  reframing_appropriate :: bool
  creative_license_respected :: pyval

section \<open>The report model (\<open>models.py\<close>)\<close>

type_synonym hits = "(string \<times> nat) list"

record UnityReport =
  coefficient :: rat
  analysis_method :: string
  separation_hits :: hits
  unity_hits :: hits
  conscious_reframing :: string

text \<open>
  The constructor call \<open>UnityReport(...)\<close>. The class declares the five fields above,
  bounds \<open>coefficient\<close> by \<open>ge=0.0\<close> and \<open>le=1.0\<close>, and sets no policy for other
  keywords, so the default of the validation library applies: a keyword that is not a
  declared field is ignored. The last argument is the keyword \<open>context_info\<close> that
  \<open>get_unity_report\<close> passes.
\<close>

definition make_UnityReport ::
  "rat \<Rightarrow> string \<Rightarrow> hits \<Rightarrow> hits \<Rightarrow> string \<Rightarrow> context_data option \<Rightarrow> error + UnityReport" where
  "make_UnityReport c method sep_hits un_hits reframing context_info =
     (if 0 \<le> c \<and> c \<le> 1
      then Inr \<lparr>coefficient = c, analysis_method = method, separation_hits = sep_hits,
                unity_hits = un_hits, conscious_reframing = reframing\<rparr>
      else Inl ValidationError)"

section \<open>Marker scanner and coefficient engine (\<open>v1_keyword_calculate\<close>)\<close>

text \<open>
  One counting loop of \<open>v1_keyword_calculate\<close>: for every marker of the lexicon, in
  order, \<open>count = text_lower.count(marker)\<close> and \<open>hits[marker] = count\<close> when the count
  is positive.
\<close>

definition count_markers :: "string list \<Rightarrow> string \<Rightarrow> hits" where
  "count_markers markers text_lower =
     fold (\<lambda>marker hits.
             let count = str_count text_lower marker
             in if count > 0 then AList.update marker count hits else hits)
          markers []"

definition sum_values :: "hits \<Rightarrow> nat" where
  "sum_values h = sum_list (map snd h)"

definition HIGH_UNITY_MESSAGE :: string where
  "HIGH_UNITY_MESSAGE = ''High Unity Alignment. The intent is rooted in love and abundance.''"

definition BALANCED_MESSAGE :: string where
  "BALANCED_MESSAGE =
     ''Balanced Alignment. The potential for conscious co-creation is strong, requiring only slight reframing.''"

definition SEPARATION_MESSAGE :: string where
  "SEPARATION_MESSAGE =
     ''The content leans towards separation logic. Re-evaluate the core premise from the perspective of our shared source and inherent abundance.''"

text \<open>
  The rest of \<open>v1_keyword_calculate\<close>, from the two sums to the report: the quotient
  of the two integers is a double, the message is chosen from it, and the report stores
  it rounded to four digits.
\<close>

definition calculate_from_hits :: "hits \<Rightarrow> hits \<Rightarrow> error + UnityReport" where
  "calculate_from_hits sep_hits un_hits =
     (let separation_count = sum_values sep_hits;
          unity_count = sum_values un_hits;
          total_markers = separation_count + unity_count;
          c = (if total_markers = 0 then 1 / 2
               else to_double (of_nat unity_count / of_nat total_markers));
          reframing = (if c \<ge> 3 / 4 then HIGH_UNITY_MESSAGE
                       else if c \<ge> 1 / 2 then BALANCED_MESSAGE
                       else SEPARATION_MESSAGE)
      in make_UnityReport (py_round c 4) ''V1: Keyword Lexicon Density''
           sep_hits un_hits reframing None)"

definition v1_keyword_calculate :: "(string \<Rightarrow> string) \<Rightarrow> string \<Rightarrow> error + UnityReport" where
  "v1_keyword_calculate lower text =
     (let text_lower = lower text;
          sep_hits = count_markers SEPARATION_MARKERS text_lower;
          un_hits = count_markers UNITY_MARKERS text_lower
      in calculate_from_hits sep_hits un_hits)"

section \<open>Context detector (\<open>ContextDetector\<close>)\<close>

definition FICTION_INDICATORS :: "string list" where
  "FICTION_INDICATORS =
    [''chapter'', ''protagonist'', ''character'', ''plot'', ''story'', ''novel'',
     ''narrative'', ''scene'', ''dialogue'', ''narrator'', ''fiction'']"

definition HORROR_INDICATORS :: "string list" where
  "HORROR_INDICATORS =
    [''horror'', ''terror'', ''fear'', ''scream'', ''blood'', ''death'',
     ''monster'', ''nightmare'', ''haunted'', ''ghost'', ''zombie'', ''vampire'',
     ''demon'']"

definition COMEDY_INDICATORS :: "string list" where
  "COMEDY_INDICATORS =
    [''comedy'', ''humor'', ''joke'', ''funny'', ''satire'', ''parody'',
     ''irony'', ''sarcasm'', ''wit'', ''amusing'', ''hilarious'', ''laugh'']"

definition TECHNICAL_INDICATORS :: "string list" where
  "TECHNICAL_INDICATORS =
    [''function'', ''class'', ''method'', ''algorithm'', ''implementation'', ''documentation'',
     ''api'', ''code'', ''syntax'', ''compile'', ''debug'']"

definition ACADEMIC_INDICATORS :: "string list" where
  "ACADEMIC_INDICATORS =
    [''abstract'', ''methodology'', ''hypothesis'', ''research'', ''study'', ''analysis'',
     ''conclusion'', ''bibliography'', ''citation'', ''peer-reviewed'']"

definition ARTISTIC_INDICATORS :: "string list" where
  "ARTISTIC_INDICATORS =
    [''artistic'', ''creative'', ''expression'', ''art'', ''poetry'', ''prose'',
     ''metaphor'', ''symbolism'', ''imagery'', ''aesthetic'']"

definition calculate_indicator_score :: "string \<Rightarrow> string list \<Rightarrow> rat" where
  "calculate_indicator_score text indicators =
     (if indicators = [] then 0
      else of_nat (length (filter (\<lambda>indicator. str_contains indicator text) indicators))
           / of_nat (length indicators))"

text \<open>The dictionary \<open>scores\<close> of \<open>_detect_content_type\<close>, in insertion order.\<close>

definition category_scores :: "string \<Rightarrow> (ContentType \<times> rat) list" where
  "category_scores text =
     [(FICTION, calculate_indicator_score text FICTION_INDICATORS),
      (HORROR, calculate_indicator_score text HORROR_INDICATORS),
      (COMEDY, calculate_indicator_score text COMEDY_INDICATORS),
      (TECHNICAL, calculate_indicator_score text TECHNICAL_INDICATORS),
      (ACADEMIC, calculate_indicator_score text ACADEMIC_INDICATORS),
      (ARTISTIC, calculate_indicator_score text ARTISTIC_INDICATORS)]"

text \<open>
  \<open>max\<close> over a non-empty sequence, given as its first element and the rest: a later
  element replaces the current maximum only when it is strictly greater. \<open>py_max_item\<close>
  is \<open>max(scores, key=scores.get)\<close> together with the score \<open>scores[best_type]\<close>.
\<close>

definition py_max :: "rat \<Rightarrow> rat list \<Rightarrow> rat" where
  "py_max x xs = fold (\<lambda>y m. if m < y then y else m) xs x"

definition py_max_item :: "'k \<times> rat \<Rightarrow> ('k \<times> rat) list \<Rightarrow> 'k \<times> rat" where
  "py_max_item x xs = fold (\<lambda>y m. if snd m < snd y then y else m) xs x"

definition detect_content_type :: "string \<Rightarrow> ContentType \<times> rat" where
  "detect_content_type text =
     (case category_scores text of
        [] \<Rightarrow> (UNKNOWN, 0)
      | first # rest \<Rightarrow>
          if py_max (snd first) (map snd rest) < 1 / 10 then (UNKNOWN, 0)
          else (let best = py_max_item first rest
                in (fst best, min (snd best) 1)))"

definition detect_genre :: "string \<Rightarrow> ContentType \<Rightarrow> pyval" where
  "detect_genre text ct =
     (if ct \<in> set [FICTION, ARTISTIC] then
        (if list_ex (\<lambda>indicator. str_contains indicator text) HORROR_INDICATORS
         then PyStr ''horror''
         else if list_ex (\<lambda>indicator. str_contains indicator text) COMEDY_INDICATORS
         then PyStr ''comedy''
         else PyNone)
      else PyNone)"

definition detect_intent :: "string \<Rightarrow> ContentType \<Rightarrow> pyval" where
  "detect_intent text ct =
     (if ct \<in> set [FICTION, ARTISTIC, HORROR] then PyStr ''artistic''
      else if ct = TECHNICAL then PyStr ''educational''
      else if ct = ACADEMIC then PyStr ''research''
      else PyNone)"

definition has_creative_license :: "ContentType \<Rightarrow> pyval \<Rightarrow> bool" where
  "has_creative_license ct g =
     (ct \<in> set [FICTION, HORROR, COMEDY, SATIRE, ARTISTIC]
      \<or> g \<in> set [PyStr ''horror'', PyStr ''comedy'', PyStr ''satire''])"

definition build_from_user_context :: "pydict \<Rightarrow> ContentContext" where
  "build_from_user_context user_context =
     (let content_type_str = dict_get user_context ''type'' (PyStr ''unknown'');
          ct = (case ContentType_of_value content_type_str of
                  Some t \<Rightarrow> t
                | None \<Rightarrow> UNKNOWN)
      in \<lparr>content_type = ct,
          genre = dict_get user_context ''genre'' PyNone,
          intent = dict_get user_context ''intent'' PyNone,
          audience = PyNone,
          creative_license = dict_get user_context ''creative_license'' (PyBool False),
          confidence = 1,
          metadata = user_context\<rparr>)"

text \<open>
  \<open>detect\<close>: the test \<open>if user_context:\<close> holds for a dictionary with at least one
  entry, and neither for \<open>None\<close> nor for the empty dictionary.
\<close>

definition detect_heuristic :: "string \<Rightarrow> ContentContext" where
  "detect_heuristic text_lower =
     (let (ct, conf) = detect_content_type text_lower;
          g = detect_genre text_lower ct;
          i = detect_intent text_lower ct;
          cl = has_creative_license ct g
      in \<lparr>content_type = ct, genre = g, intent = i, audience = PyNone,
          creative_license = PyBool cl, confidence = conf, metadata = []\<rparr>)"

definition detect :: "(string \<Rightarrow> string) \<Rightarrow> string \<Rightarrow> pydict option \<Rightarrow> ContentContext" where
  "detect lower text user_context =
     (let text_lower = lower text
      in case user_context of
           None \<Rightarrow> detect_heuristic text_lower
         | Some d \<Rightarrow> if d \<noteq> [] then build_from_user_context d
                     else detect_heuristic text_lower)"

section \<open>Contextualizer (\<open>ConsciousnessContextualizer\<close>)\<close>

definition interpret_coefficient :: "rat \<Rightarrow> ContentContext \<Rightarrow> string" where
  "interpret_coefficient c cx =
     (if truthy (creative_license cx) then
        (if content_type cx = HORROR then
           ''Unity Coefficient: '' @ format_2f c @ '' (Genre: Horror Fiction)'' @ NL @
           ''Low coefficient expected for this genre. Creative license respected.''
         else if content_type cx = COMEDY then
           ''Unity Coefficient: '' @ format_2f c @ '' (Genre: Comedy/Satire)'' @ NL @
           ''Coefficient reflects comedic/satirical intent. Creative expression honored.''
         else
           ''Unity Coefficient: '' @ format_2f c @ '' (Artistic Expression)'' @ NL @
           ''Creative license recognized. No restrictions applied.'')
      else if c \<ge> 3 / 4 then
        ''Unity Coefficient: '' @ format_2f c @ '' - High unity alignment''
      else if c \<ge> 1 / 2 then
        ''Unity Coefficient: '' @ format_2f c @ '' - Balanced alignment''
      else
        ''Unity Coefficient: '' @ format_2f c @ '' - Separation-leaning patterns detected'')"

definition generate_contextual_notes :: "rat \<Rightarrow> ContentContext \<Rightarrow> string list" where
  "generate_contextual_notes c cx =
     (if truthy (creative_license cx) then
        [CHECK_MARK @ '' Creative license respected'',
         CHECK_MARK @ '' No restrictions applied'',
         CHECK_MARK @ '' Artistic expression honored''] @
        (if content_type cx = HORROR then
           [''Note: Horror genre naturally employs separation themes for emotional impact'']
         else if content_type cx = COMEDY then
           [''Note: Comedy/satire often uses contrast and conflict for humorous effect'']
         else [])
      else if c < 1 / 2 then
        [''Observation: Content shows separation-based patterns'',
         ''Suggestion: Alternative framing available if desired'']
      else if c \<ge> 3 / 4 then
        [''Observation: Strong unity consciousness present'',
         ''Recognition: Content promotes collaborative awareness'']
      else []) @
     (if confidence cx < 1 / 2 then
        [''Note: Context detection confidence is '' @ format_pct0 (confidence cx),
         ''Tip: You can provide explicit context for more accurate analysis'']
      else [])"

definition should_suggest_reframing :: "rat \<Rightarrow> ContentContext \<Rightarrow> bool" where
  "should_suggest_reframing c cx =
     (if truthy (creative_license cx) then False
      else if content_type cx \<in> set [BUSINESS, TECHNICAL] then c < 1 / 2
      else c < 3 / 10)"

definition contextualize_coefficient ::
  "(string \<Rightarrow> string) \<Rightarrow> rat \<Rightarrow> string \<Rightarrow> pydict option \<Rightarrow> context_data" where
  "contextualize_coefficient lower c text user_context =
     (let cx = detect lower text user_context
      in \<lparr>raw_coefficient = c,
          cd_context = cx,
          cd_interpretation = interpret_coefficient c cx,
          cd_notes = generate_contextual_notes c cx,
          reframing_appropriate = should_suggest_reframing c cx,
          creative_license_respected = creative_license cx\<rparr>)"

definition detect_context :: "(string \<Rightarrow> string) \<Rightarrow> string \<Rightarrow> pydict option \<Rightarrow> ContentContext" where
  "detect_context lower text user_context = detect lower text user_context"

definition contextualize_analysis ::
  "(string \<Rightarrow> string) \<Rightarrow> rat \<Rightarrow> string \<Rightarrow> pydict option \<Rightarrow> context_data" where
  "contextualize_analysis lower c text user_context =
     contextualize_coefficient lower c text user_context"

section \<open>The entry point (\<open>get_unity_report\<close>)\<close>

definition generate_context_aware_reframing :: "string \<Rightarrow> context_data \<Rightarrow> string" where
  "generate_context_aware_reframing base_reframing cd =
     (let cx = cd_context cd
      in if truthy (creative_license cx) then
           cd_interpretation cd @ NL @ NL @
           ''Creative Expression Recognized:'' @ NL @
           ''Your artistic vision is respected. No reframing suggested.'' @ NL @
           ''The consciousness patterns detected are appropriate for '' @
           ContentType_value (content_type cx) @ '' content.''
         else if reframing_appropriate cd then
           cd_interpretation cd @ NL @ NL @
           ''Observation: '' @ base_reframing @ NL @ NL @
           ''Note: This is informational only. You have complete sovereignty '' @
           ''over your expression. Alternative framings are available if desired.''
         else
           cd_interpretation cd @ NL @ NL @ base_reframing)"

definition get_unity_report ::
  "(string \<Rightarrow> string) \<Rightarrow> string \<Rightarrow> pydict option \<Rightarrow> bool \<Rightarrow> error + UnityReport" where
  "get_unity_report lower text user_context include_context =
     (case v1_keyword_calculate lower text of
        Inl e \<Rightarrow> Inl e
      | Inr base_report \<Rightarrow>
          if \<not> include_context then Inr base_report
          else (let cd = contextualize_analysis lower (coefficient base_report) text
                          user_context
                in make_UnityReport (coefficient base_report) (analysis_method base_report)
                     (separation_hits base_report) (unity_hits base_report)
                     (generate_context_aware_reframing (conscious_reframing base_report) cd)
                     (Some cd)))"

section \<open>Evaluation rules are used on demand\<close>

declare str_count.simps [simp del]
declare show_nat.simps [simp del]
declare log2_up.simps [simp del]
declare log2_down.simps [simp del]

section \<open>Rounding\<close>

lemma floor_numeral_quotient:
  "\<lfloor>(numeral a :: rat) / numeral b\<rfloor> = numeral a div numeral b"
  by (metis floor_divide_of_int_eq of_int_numeral)

lemma td_160: "to_double (1 / 160) = 7205759403792794 / 1152921504606846976"
  by (simp add: to_double_def floor_log2_def log2_down.simps pow2_def round_half_even_def
      Let_def floor_numeral_quotient)

lemma py_round_tie_above: "py_round (1 / 160) 4 = 63 / 10000"
  by (simp add: py_round_def td_160 round_half_even_def Let_def floor_numeral_quotient)

lemma rhe_cases:
  "round_half_even y = \<lfloor>y\<rfloor> \<or> round_half_even y = \<lfloor>y\<rfloor> + 1"
  by (simp add: round_half_even_def Let_def)

lemma rhe_close: "\<bar>of_int (round_half_even y) - y\<bar> \<le> 1 / 2"
proof -
  have "of_int \<lfloor>y\<rfloor> \<le> y" "y < of_int \<lfloor>y\<rfloor> + 1" by linarith+
  then show ?thesis
    by (auto simp: round_half_even_def Let_def)
qed

lemma rhe_near: "\<bar>y - of_int k\<bar> < 1 / 2 \<Longrightarrow> round_half_even y = k"
proof -
  assume a: "\<bar>y - of_int k\<bar> < 1 / 2"
  have "\<bar>(of_int (round_half_even y) :: rat) - of_int k\<bar> < 1"
    using a rhe_close [of y] by linarith
  then have "\<bar>(of_int (round_half_even y - k) :: rat)\<bar> < 1" by simp
  then have "\<bar>round_half_even y - k\<bar> < 1"
    by (metis of_int_abs of_int_less_1_iff)
  then show ?thesis by linarith
qed

lemma log2_down_neg: "0 < x \<Longrightarrow> x < 1 \<Longrightarrow> log2_down x \<le> - 1"
proof (induction x rule: log2_down.induct)
  case (1 x)
  show ?case
  proof (cases "2 * x < 1")
    case True
    then have "log2_down (2 * x) \<le> - 1" using 1 by simp
    then show ?thesis using 1 by (simp add: log2_down.simps [of x])
  next
    case False
    then have "log2_down (2 * x) = 0" by (simp add: log2_down.simps [of "2 * x"])
    then show ?thesis using 1 by (simp add: log2_down.simps [of x])
  qed
qed

lemma floor_log2_unit: "0 < x \<Longrightarrow> x \<le> 1 \<Longrightarrow> floor_log2 x \<le> 0"
  using log2_down_neg [of x]
  by (cases "x = 1") (auto simp: floor_log2_def log2_up.simps [of 1])

lemma pow2_pos: "0 < pow2 k"
  by (simp add: pow2_def)

lemma pow2_small: "k \<le> - 52 \<Longrightarrow> pow2 k \<le> 1 / 2 ^ 52"
proof -
  assume a: "k \<le> - 52"
  then have "(2::rat) ^ 52 \<le> 2 ^ nat (- k)"
    by (intro power_increasing) auto
  then show ?thesis using a by (simp add: pow2_def frac_le)
qed

lemma to_double_close: "0 \<le> x \<Longrightarrow> x \<le> 1 \<Longrightarrow> \<bar>to_double x - x\<bar> \<le> 1 / 2 ^ 53"
proof (cases "x = 0")
  case True
  then show ?thesis by (simp add: to_double_def)
next
  case False
  assume a: "0 \<le> x" "x \<le> 1"
  define e where "e = max (floor_log2 \<bar>x\<bar>) (- 1022)"
  define u where "u = pow2 (e - 52)"
  have "floor_log2 \<bar>x\<bar> \<le> 0" using a False by (intro floor_log2_unit) auto
  then have "e - 52 \<le> - 52" by (simp add: e_def)
  then have s: "u \<le> 1 / 2 ^ 52" unfolding u_def by (rule pow2_small)
  have p: "0 < u" unfolding u_def by (rule pow2_pos)
  have t: "to_double x = of_int (round_half_even (x / u)) * u"
    using a False by (simp add: to_double_def Let_def e_def u_def)
  have "\<bar>of_int (round_half_even (x / u)) - x / u\<bar> \<le> 1 / 2" by (rule rhe_close)
  then have "\<bar>of_int (round_half_even (x / u)) - x / u\<bar> * u \<le> (1 / 2) * u"
    using p by (intro mult_right_mono) auto
  moreover have "\<bar>of_int (round_half_even (x / u)) - x / u\<bar> * u = \<bar>to_double x - x\<bar>"
  proof -
    have "to_double x - x = (of_int (round_half_even (x / u)) - x / u) * u"
      using p by (simp add: t left_diff_distrib)
    then show ?thesis using p by (simp add: abs_mult)
  qed
  ultimately have "\<bar>to_double x - x\<bar> \<le> (1 / 2) * u" by simp
  also have "\<dots> \<le> (1 / 2) * (1 / 2 ^ 52)" using s by simp
  finally show ?thesis by simp
qed

lemma rhe_nonneg: "0 \<le> y \<Longrightarrow> 0 \<le> round_half_even y"
  using rhe_cases [of y] by (auto simp: le_floor_iff)

lemma to_double_nonneg: "0 \<le> x \<Longrightarrow> 0 \<le> to_double x"
proof (cases "x = 0")
  case True
  then show ?thesis by (simp add: to_double_def)
next
  case False
  assume "0 \<le> x"
  then show ?thesis
    using False pow2_pos rhe_nonneg
    by (simp add: to_double_def Let_def less_imp_le)
qed

lemma to_double_upper: "0 \<le> x \<Longrightarrow> x \<le> 1 \<Longrightarrow> to_double x \<le> x + 1 / 40000000"
proof -
  assume a: "0 \<le> x" "x \<le> 1"
  have "\<bar>to_double x - x\<bar> \<le> 1 / 2 ^ 53" using a by (rule to_double_close)
  moreover have "(1::rat) / 2 ^ 53 \<le> 1 / 40000000" by simp
  ultimately show ?thesis by linarith
qed

lemma to_double_scaled:
  "0 \<le> x \<Longrightarrow> x \<le> 1 \<Longrightarrow> \<bar>to_double x * 10000 - x * 10000\<bar> \<le> 1 / 2 ^ 39"
proof -
  assume a: "0 \<le> x" "x \<le> 1"
  have c: "\<bar>to_double x - x\<bar> \<le> 1 / 2 ^ 53" using a by (rule to_double_close)
  have "to_double x * 10000 - x * 10000 = (to_double x - x) * 10000"
    by (simp add: algebra_simps)
  then have "\<bar>to_double x * 10000 - x * 10000\<bar> = \<bar>to_double x - x\<bar> * 10000"
    by (simp only: abs_mult abs_numeral)
  also have "\<dots> \<le> (1 / 2 ^ 53) * 10000"
    using c by (intro mult_right_mono) auto
  also have "\<dots> \<le> 1 / 2 ^ 39" by simp
  finally show ?thesis .
qed

lemma pow2_Suc: "pow2 (k + 1) = 2 * pow2 k"
proof (cases "0 \<le> k")
  case True
  then show ?thesis by (simp add: pow2_def nat_add_distrib)
next
  case False
  then have "nat (- k) = Suc (nat (- k - 1))" by simp
  then show ?thesis using False by (simp add: pow2_def)
qed

lemma log2_up_bounds: "1 \<le> x \<Longrightarrow> pow2 (log2_up x) \<le> x \<and> x < pow2 (log2_up x + 1)"
proof (induction x rule: log2_up.induct)
  case (1 x)
  show ?case
  proof (cases "x < 2")
    case True
    then show ?thesis using 1(2) by (simp add: log2_up.simps [of x] pow2_def)
  next
    case False
    then have "pow2 (log2_up (x / 2)) \<le> x / 2 \<and> x / 2 < pow2 (log2_up (x / 2) + 1)"
      using 1 by simp
    moreover have "log2_up x = log2_up (x / 2) + 1"
      using False by (simp add: log2_up.simps [of x])
    moreover have "pow2 (log2_up (x / 2) + 1 + 1) = 2 * pow2 (log2_up (x / 2) + 1)"
      by (rule pow2_Suc)
    moreover have "pow2 (log2_up (x / 2) + 1) = 2 * pow2 (log2_up (x / 2))"
      by (rule pow2_Suc)
    ultimately show ?thesis by simp
  qed
qed

lemma log2_down_bounds:
  "0 < x \<Longrightarrow> x < 1 \<Longrightarrow> pow2 (log2_down x) \<le> x \<and> x < pow2 (log2_down x + 1)"
proof (induction x rule: log2_down.induct)
  case (1 x)
  have l: "log2_down x = log2_down (2 * x) - 1"
    using 1(2,3) by (simp add: log2_down.simps [of x])
  show ?case
  proof (cases "2 * x < 1")
    case True
    then have "pow2 (log2_down (2 * x)) \<le> 2 * x \<and> 2 * x < pow2 (log2_down (2 * x) + 1)"
      using 1 by simp
    then show ?thesis
      using pow2_Suc [of "log2_down (2 * x) - 1"] by (simp add: l pow2_Suc)
  next
    case False
    then have "log2_down (2 * x) = 0" by (simp add: log2_down.simps [of "2 * x"])
    then show ?thesis using False 1(3) by (simp add: l pow2_def)
  qed
qed

lemma floor_log2_bounds:
  "0 < x \<Longrightarrow> pow2 (floor_log2 x) \<le> x \<and> x < pow2 (floor_log2 x + 1)"
  using log2_up_bounds [of x] log2_down_bounds [of x]
  by (simp add: floor_log2_def)

lemma rhe_le_int: "y \<le> of_int k \<Longrightarrow> round_half_even y \<le> k"
proof (cases "y = of_int k")
  case True
  then show ?thesis by (simp add: round_half_even_def)
next
  case False
  assume "y \<le> of_int k"
  then have "y < of_int k" using False by simp
  then have "\<lfloor>y\<rfloor> < k" by (simp add: floor_less_iff)
  then show ?thesis using rhe_cases [of y] by linarith
qed

lemma to_double_le_one: "0 \<le> x \<Longrightarrow> x \<le> 1 \<Longrightarrow> to_double x \<le> 1"
proof (cases "x = 0")
  case True
  then show ?thesis by (simp add: to_double_def)
next
  case False
  assume a: "0 \<le> x" "x \<le> 1"
  define e where "e = max (floor_log2 \<bar>x\<bar>) (- 1022)"
  define n where "n = nat (52 - e)"
  have "floor_log2 \<bar>x\<bar> \<le> 0" using a False by (intro floor_log2_unit) auto
  then have "e \<le> 0" by (simp add: e_def)
  then have u: "pow2 (e - 52) = 1 / 2 ^ n" by (simp add: pow2_def n_def)
  have "to_double x = of_int (round_half_even (x / pow2 (e - 52))) * pow2 (e - 52)"
    using a False by (simp add: to_double_def Let_def e_def)
  then have t: "to_double x = of_int (round_half_even (x * 2 ^ n)) / 2 ^ n"
    by (simp add: u)
  have "x * 2 ^ n \<le> 1 * 2 ^ n" using a by (intro mult_right_mono) auto
  then have "x * 2 ^ n \<le> of_int (2 ^ n)" by simp
  then have "round_half_even (x * 2 ^ n) \<le> 2 ^ n" by (rule rhe_le_int)
  then have "(of_int (round_half_even (x * 2 ^ n)) :: rat) \<le> of_int (2 ^ n)"
    by (simp only: of_int_le_iff)
  then have "(of_int (round_half_even (x * 2 ^ n)) :: rat) \<le> 2 ^ n" by simp
  then show ?thesis by (simp add: t divide_le_eq_1)
qed

lemma py_round_near:
  "0 \<le> x \<Longrightarrow> x \<le> 1 \<Longrightarrow> \<bar>x * 10000 - of_int k\<bar> < 1 / 2 - 1 / 2 ^ 39 \<Longrightarrow>
   py_round x 4 = of_int k / 10000"
proof -
  assume a: "0 \<le> x" "x \<le> 1" and n: "\<bar>x * 10000 - of_int k\<bar> < 1 / 2 - 1 / 2 ^ 39"
  have s: "\<bar>to_double x * 10000 - x * 10000\<bar> \<le> 1 / 2 ^ 39"
    using a by (rule to_double_scaled)
  have "\<bar>to_double x * 10000 - of_int k\<bar>
        \<le> \<bar>to_double x * 10000 - x * 10000\<bar> + \<bar>x * 10000 - of_int k\<bar>"
    by linarith
  then have "\<bar>to_double x * 10000 - of_int k\<bar> < 1 / 2" using s n by linarith
  then have "round_half_even (to_double x * 10000) = k" by (rule rhe_near)
  then show ?thesis by (simp add: py_round_def)
qed

lemma py_round_unit: "0 \<le> x \<Longrightarrow> x \<le> 1 \<Longrightarrow> 0 \<le> py_round x 4 \<and> py_round x 4 \<le> 1"
proof -
  assume a: "0 \<le> x" "x \<le> 1"
  have "0 \<le> to_double x * 10000" using a to_double_nonneg [of x] by simp
  then have l: "0 \<le> round_half_even (to_double x * 10000)" by (rule rhe_nonneg)
  have "to_double x \<le> x + 1 / 40000000" using a by (rule to_double_upper)
  then have "to_double x * 10000 \<le> 10000 + 1 / 4" using a by linarith
  moreover have "of_int (round_half_even (to_double x * 10000)) \<le> to_double x * 10000 + 1 / 2"
    using rhe_close [of "to_double x * 10000"] by linarith
  ultimately have "(of_int (round_half_even (to_double x * 10000)) :: rat) < 10001" by linarith
  then have "round_half_even (to_double x * 10000) \<le> 10000" by linarith
  with l show ?thesis by (simp add: py_round_def)
qed

lemma py_round_half: "py_round (1 / 2) 4 = 1 / 2"
  using py_round_near [of "1 / 2" 5000] by simp

lemma py_round_three_quarters: "py_round (3 / 4) 4 = 3 / 4"
  using py_round_near [of "3 / 4" 7500] by simp

lemma td_half: "to_double (1 / 2) = 1 / 2"
  by (simp add: to_double_def floor_log2_def log2_down.simps pow2_def round_half_even_def
      Let_def)

lemma td_three_quarters: "to_double (3 / 4) = 3 / 4"
  by (simp add: to_double_def floor_log2_def log2_down.simps pow2_def round_half_even_def
      Let_def)

lemma td_two_fifths: "to_double (2 / 5) = 3602879701896397 / 9007199254740992"
  by (simp add: to_double_def floor_log2_def log2_down.simps pow2_def round_half_even_def
      Let_def floor_numeral_quotient)

lemma py_round_td_two_fifths: "py_round (3602879701896397 / 9007199254740992) 4 = 2 / 5"
  using py_round_near [of "3602879701896397 / 9007199254740992" 4000] by simp

lemma td_sample: "to_double (3752 / 5003) = 844368668893369 / 1125899906842624"
  by (simp add: to_double_def floor_log2_def log2_down.simps pow2_def round_half_even_def
      Let_def floor_numeral_quotient)

lemma py_round_td_sample: "py_round (844368668893369 / 1125899906842624) 4 = 3 / 4"
  using py_round_near [of "844368668893369 / 1125899906842624" 7500] by simp

lemma td_40: "to_double (1 / 40) = 7205759403792794 / 288230376151711744"
  by (simp add: to_double_def floor_log2_def log2_down.simps pow2_def round_half_even_def
      Let_def floor_numeral_quotient)

lemma format_2f_half: "format_2f (1 / 2) = ''0.50''"
  by (simp add: format_2f_def td_half round_half_even_def show_nat.simps digit_char_def Let_def)

lemma format_2f_zero: "format_2f 0 = ''0.00''"
  by (simp add: format_2f_def to_double_def round_half_even_def show_nat.simps digit_char_def
      Let_def)

lemma format_2f_tie_above: "format_2f (1 / 40) = ''0.03''"
  by (simp add: format_2f_def td_40 round_half_even_def show_nat.simps digit_char_def Let_def
      floor_numeral_quotient)

section \<open>An empty user context\<close>

text \<open>
  Claim C10. An empty user-context dictionary passed to the public operation has the
  effect of passing no user context: the detector does not build the context from the
  dictionary but runs the heuristic detection on the folded text, and the detected
  context, the contextual analysis and the report are the same as without a dictionary.
\<close>

theorem empty_user_context_as_none:
  "detect lower text (Some []) = detect_heuristic (lower text)
   \<and> detect lower text (Some []) = detect lower text None
   \<and> contextualize_analysis lower c text (Some []) = contextualize_analysis lower c text None
   \<and> get_unity_report lower text (Some []) include_context
       = get_unity_report lower text None include_context"
proof -
  have d: "detect lower text (Some []) = detect lower text None"
    by (simp add: detect_def)
  have a: "contextualize_analysis lower x text (Some []) = contextualize_analysis lower x text None" for x
    by (simp add: contextualize_analysis_def contextualize_coefficient_def d)
  have g: "get_unity_report lower text (Some []) include_context
           = get_unity_report lower text None include_context"
    by (simp only: get_unity_report_def a)
  have h: "detect lower text (Some []) = detect_heuristic (lower text)"
    by (simp add: detect_def)
  from h d a g show ?thesis by simp
qed

section \<open>The coefficient engine on arbitrary hit maps\<close>

lemma quotient_unit:
  "0 \<le> (if a + b = 0 then 1 / 2 else to_double (of_nat b / of_nat (a + b)))
   \<and> (if a + b = 0 then 1 / 2 else to_double (of_nat b / of_nat (a + b))) \<le> 1"
proof (cases "a + b = 0")
  case True
  then show ?thesis by simp
next
  case False
  have "0 \<le> (of_nat b :: rat) / of_nat (a + b)" by simp
  moreover have "(of_nat b :: rat) / of_nat (a + b) \<le> 1"
    using False by (simp add: divide_le_eq_1 del: of_nat_add)
  ultimately show ?thesis
    using False by (simp add: to_double_nonneg to_double_le_one del: of_nat_add)
qed

lemma calculate_from_hits_eq:
  "calculate_from_hits sep un =
     (let total = sum_values sep + sum_values un;
          q = (if total = 0 then 1 / 2
               else to_double (of_nat (sum_values un) / of_nat total))
      in Inr \<lparr>coefficient = py_round q 4,
               analysis_method = ''V1: Keyword Lexicon Density'',
               separation_hits = sep, unity_hits = un,
               conscious_reframing =
                 (if q \<ge> 3 / 4 then HIGH_UNITY_MESSAGE
                  else if q \<ge> 1 / 2 then BALANCED_MESSAGE else SEPARATION_MESSAGE)\<rparr>)"
proof -
  define q :: rat where
    "q = (if sum_values sep + sum_values un = 0 then 1 / 2
          else to_double (of_nat (sum_values un) / of_nat (sum_values sep + sum_values un)))"
  have "0 \<le> q \<and> q \<le> 1"
    unfolding q_def by (rule quotient_unit)
  then have "0 \<le> py_round q 4 \<and> py_round q 4 \<le> 1"
    by (simp add: py_round_unit)
  then show ?thesis
    unfolding calculate_from_hits_def make_UnityReport_def Let_def q_def [symmetric]
    by simp
qed

section \<open>Validation at the report boundary\<close>

text \<open>
  Claim C4. The constructor of the report raises a validation error exactly when the
  coefficient is below 0 or above 1. The coefficient that the engine computes from any
  two hit maps lies in the unit interval, so the engine returns a report; and for every
  text, every user context (absent, empty, or with fields of any value) and either value
  of the flag, the public operation returns a report, whose coefficient lies in the unit
  interval.
\<close>

theorem report_validation_and_totality:
  "(make_UnityReport c m sh uh msg ci = Inl ValidationError) = (c < 0 \<or> 1 < c)
   \<and> (\<exists>rep. calculate_from_hits sep un = Inr rep
          \<and> 0 \<le> coefficient rep \<and> coefficient rep \<le> 1)
   \<and> (\<exists>rep. get_unity_report lower text user_context include_context = Inr rep
          \<and> 0 \<le> coefficient rep \<and> coefficient rep \<le> 1)"
proof -
  have v: "(make_UnityReport c m sh uh msg ci = Inl ValidationError) = (c < 0 \<or> 1 < c)"
    by (auto simp: make_UnityReport_def)
  have e: "\<exists>rep. calculate_from_hits s u = Inr rep
          \<and> 0 \<le> coefficient rep \<and> coefficient rep \<le> 1" for s u
    unfolding calculate_from_hits_eq Let_def
    using quotient_unit [of "sum_values s" "sum_values u"]
    by (simp add: py_round_unit)
  obtain base where b: "v1_keyword_calculate lower text = Inr base"
    "0 \<le> coefficient base" "coefficient base \<le> 1"
    using e unfolding v1_keyword_calculate_def Let_def by blast
  have g: "\<exists>rep. get_unity_report lower text user_context include_context = Inr rep
          \<and> 0 \<le> coefficient rep \<and> coefficient rep \<le> 1"
    using b by (simp add: get_unity_report_def make_UnityReport_def Let_def)
  from v e g show ?thesis by blast
qed

text \<open>An instance: mixed-case text and a user context whose fields are no strings.\<close>

theorem report_validation_and_totality_witness:
  "\<exists>rep. get_unity_report ascii_lower ''LoVe'' (Some [(''type'', PyInt 7), (''genre'', PyBool True)]) True = Inr rep
         \<and> 0 \<le> coefficient rep \<and> coefficient rep \<le> 1"
  using report_validation_and_totality by blast

section \<open>A user context that is supplied\<close>

lemma ContentType_of_value_value:
  "ContentType_of_value (PyStr (ContentType_value t)) = Some t"
  unfolding ContentType_of_value_def ContentType_members_def
  by (cases t) simp_all

lemma ContentType_of_value_iff:
  "ContentType_of_value v = Some t \<longleftrightarrow> v = PyStr (ContentType_value t)"
proof
  assume a: "ContentType_of_value v = Some t"
  then obtain s where v: "v = PyStr s"
    by (cases v) (simp_all add: ContentType_of_value_def)
  from a have "find (\<lambda>t. ContentType_value t = s) ContentType_members = Some t"
    by (simp add: v ContentType_of_value_def)
  then have "ContentType_value t = s"
    by (auto simp: find_Some_iff)
  with v show "v = PyStr (ContentType_value t)" by simp
next
  assume "v = PyStr (ContentType_value t)"
  then show "ContentType_of_value v = Some t"
    by (simp add: ContentType_of_value_value)
qed
text \<open>
  Claim C7, as amended. Whenever a user context with at least one entry is supplied, the
  detector returns the context built from it, whatever the text: the content type is
  the member of the enumeration whose value is the \<open>type\<close> entry (\<open>unknown\<close> when the entry
  is missing) and \<open>UNKNOWN\<close> when no member has that value; \<open>genre\<close>, \<open>intent\<close> and
  \<open>creative_license\<close> are the entries of the dictionary as they are (\<open>None\<close>, \<open>None\<close> and
  \<open>False\<close> when missing); the confidence is 1; and the flag reported by the contextual
  analysis is the \<open>creative_license\<close> entry.
\<close>

theorem nonempty_user_context_trusted:
  "d \<noteq> [] \<Longrightarrow>
     detect lower text (Some d) = build_from_user_context d
     \<and> detect lower text (Some d) = detect lower text' (Some d)
     \<and> content_type (detect lower text (Some d)) =
         (case ContentType_of_value (dict_get d ''type'' (PyStr ''unknown'')) of
            Some t \<Rightarrow> t | None \<Rightarrow> UNKNOWN)
     \<and> (ContentType_of_value v = Some t) = (v = PyStr (ContentType_value t))
     \<and> genre (detect lower text (Some d)) = dict_get d ''genre'' PyNone
     \<and> intent (detect lower text (Some d)) = dict_get d ''intent'' PyNone
     \<and> creative_license (detect lower text (Some d)) = dict_get d ''creative_license'' (PyBool False)
     \<and> confidence (detect lower text (Some d)) = 1
     \<and> metadata (detect lower text (Some d)) = d
     \<and> creative_license_respected (contextualize_analysis lower c text (Some d))
         = dict_get d ''creative_license'' (PyBool False)"
  by (simp add: detect_def build_from_user_context_def Let_def ContentType_of_value_iff
      contextualize_analysis_def contextualize_coefficient_def)

text \<open>
  An instance: \<open>{type: fiction, creative_license: True}\<close> for a text without fiction
  indicators, and an unrecognised type.
\<close>

theorem nonempty_user_context_trusted_witness:
  "detect ascii_lower ''The violent storm destroyed everything in its path.''
     (Some [(''type'', PyStr ''fiction''), (''creative_license'', PyBool True)])
   = \<lparr>content_type = FICTION, genre = PyNone, intent = PyNone, audience = PyNone,
      creative_license = PyBool True, confidence = 1,
      metadata = [(''type'', PyStr ''fiction''), (''creative_license'', PyBool True)]\<rparr>
   \<and> creative_license_respected
        (contextualize_analysis ascii_lower (1 / 2) ''The violent storm destroyed everything in its path.''
          (Some [(''type'', PyStr ''fiction''), (''creative_license'', PyBool True)]))
      = PyBool True
   \<and> content_type (detect ascii_lower ''words''
        (Some [(''type'', PyStr ''limerick''), (''genre'', PyInt 3)])) = UNKNOWN"
  using nonempty_user_context_trusted
    [of "[(''type'', PyStr ''fiction''), (''creative_license'', PyBool True)]"
        ascii_lower "''The violent storm destroyed everything in its path.''" "[]"
        "PyStr ''fiction''" FICTION "1 / 2"]
    nonempty_user_context_trusted
    [of "[(''type'', PyStr ''limerick''), (''genre'', PyInt 3)]" ascii_lower "''words''" "[]"
        "PyStr ''limerick''" FICTION 0]
  by (simp add: build_from_user_context_def dict_get_def ContentType_of_value_def
      ContentType_members_def)

lemma detect_heuristic_empty:
  "detect_heuristic [] =
     \<lparr>content_type = UNKNOWN, genre = PyNone, intent = PyNone, audience = PyNone,
      creative_license = PyBool False, confidence = 0, metadata = []\<rparr>"
  by (simp add: detect_heuristic_def detect_content_type_def category_scores_def
      calculate_indicator_score_def str_contains_def py_max_def py_max_item_def
      detect_genre_def detect_intent_def has_creative_license_def
      FICTION_INDICATORS_def HORROR_INDICATORS_def COMEDY_INDICATORS_def
      TECHNICAL_INDICATORS_def ACADEMIC_INDICATORS_def ARTISTIC_INDICATORS_def)

text \<open>
  The claim as stated covers every supplied user context. The empty dictionary is a
  supplied context that the detector does not trust: the heuristic detection runs and
  the confidence is 0 for the empty text, not 1.
\<close>

theorem empty_user_context_not_trusted_counterexample:
  "confidence (detect ascii_lower [] (Some [])) = 0 \<and> confidence (build_from_user_context []) = 1"
  by (simp add: detect_def ascii_lower_def detect_heuristic_empty build_from_user_context_def)

section \<open>Heuristic detection of the content type\<close>

lemma py_max_fold_ge: "m \<le> fold (\<lambda>y m. if m < y then y else m) xs (m::rat)"
proof (induction xs arbitrary: m)
  case Nil
  show ?case by simp
next
  case (Cons a xs)
  show ?case
    using Cons.IH [of a] Cons.IH [of m] by auto
qed

lemma py_max_upper: "y \<in> set (x # xs) \<Longrightarrow> y \<le> py_max x xs"
  unfolding py_max_def
proof (induction xs arbitrary: x)
  case Nil
  then show ?case by simp
next
  case (Cons a xs)
  show ?case
    using Cons.prems Cons.IH [of a] Cons.IH [of x] py_max_fold_ge [of a xs] py_max_fold_ge [of x xs]
    by (auto split: if_splits)
qed

lemma py_max_mem: "py_max x xs \<in> set (x # xs)"
  unfolding py_max_def
proof (induction xs arbitrary: x)
  case Nil
  show ?case by simp
next
  case (Cons a xs)
  show ?case
    using Cons.IH [of a] Cons.IH [of x] by auto
qed

lemma py_max_item_fold_ge:
  "snd m \<le> snd (fold (\<lambda>y m. if snd m < snd y then y else m) xs (m :: 'k \<times> rat))"
proof (induction xs arbitrary: m)
  case Nil
  show ?case by simp
next
  case (Cons a xs)
  show ?case
    using Cons.IH [of a] Cons.IH [of m] by auto
qed

lemma py_max_item_upper: "y \<in> set (x # xs) \<Longrightarrow> snd y \<le> snd (py_max_item x xs)"
  unfolding py_max_item_def
proof (induction xs arbitrary: x)
  case Nil
  then show ?case by simp
next
  case (Cons a xs)
  show ?case
    using Cons.prems Cons.IH [of a] Cons.IH [of x]
      py_max_item_fold_ge [of a xs] py_max_item_fold_ge [of x xs]
    by (auto split: if_splits)
qed

lemma py_max_item_mem: "py_max_item x xs \<in> set (x # xs)"
  unfolding py_max_item_def
proof (induction xs arbitrary: x)
  case Nil
  show ?case by simp
next
  case (Cons a xs)
  show ?case
    using Cons.IH [of a] Cons.IH [of x] by auto
qed

lemma indicator_score_card:
  "distinct ind \<Longrightarrow>
   calculate_indicator_score text ind
     = of_nat (card {w \<in> set ind. sublist w text}) / of_nat (length ind)"
proof -
  assume d: "distinct ind"
  have "{w \<in> set ind. sublist w text} = set (filter (\<lambda>w. sublist w text) ind)"
    by auto
  moreover have "distinct (filter (\<lambda>w. sublist w text) ind)"
    using d by simp
  ultimately have "card {w \<in> set ind. sublist w text} = length (filter (\<lambda>w. sublist w text) ind)"
    using distinct_card [of "filter (\<lambda>w. sublist w text) ind"] by simp
  then show ?thesis
    by (simp add: calculate_indicator_score_def str_contains_def)
qed

lemma indicator_lists_distinct:
  "list_all distinct
     [FICTION_INDICATORS, HORROR_INDICATORS, COMEDY_INDICATORS, TECHNICAL_INDICATORS,
      ACADEMIC_INDICATORS, ARTISTIC_INDICATORS]"
  by (simp add: FICTION_INDICATORS_def HORROR_INDICATORS_def COMEDY_INDICATORS_def
      TECHNICAL_INDICATORS_def ACADEMIC_INDICATORS_def ARTISTIC_INDICATORS_def)

lemma detect_content_type_unknown:
  "\<forall>(t, s) \<in> set (category_scores text). s < 1 / 10 \<Longrightarrow>
   detect_content_type text = (UNKNOWN, 0)"
proof -
  assume a: "\<forall>(t, s) \<in> set (category_scores text). s < 1 / 10"
  show ?thesis
  proof (cases "category_scores text")
    case Nil
    then show ?thesis by (simp add: detect_content_type_def)
  next
    case (Cons p ps)
    have "py_max (snd p) (map snd ps) \<in> snd ` set (category_scores text)"
      using py_max_mem [of "snd p" "map snd ps"] by (simp add: Cons)
    with a have "py_max (snd p) (map snd ps) < 1 / 10" by auto
    then show ?thesis by (simp add: detect_content_type_def Cons)
  qed
qed

lemma detect_content_type_best:
  "\<exists>(t, s) \<in> set (category_scores text). 1 / 10 \<le> s \<Longrightarrow>
   \<exists>(t, s) \<in> set (category_scores text).
      detect_content_type text = (t, min s 1)
      \<and> (\<forall>(t', s') \<in> set (category_scores text). s' \<le> s)"
proof -
  assume a: "\<exists>(t, s) \<in> set (category_scores text). 1 / 10 \<le> s"
  then obtain p ps where c: "category_scores text = p # ps"
    by (cases "category_scores text") auto
  from a obtain t s where ts: "(t, s) \<in> set (p # ps)" "1 / 10 \<le> s"
    unfolding c by auto
  then have "s \<in> set (snd p # map snd ps)" by force
  then have "s \<le> py_max (snd p) (map snd ps)" by (rule py_max_upper)
  with ts have n: "\<not> py_max (snd p) (map snd ps) < 1 / 10" by simp
  define b where "b = py_max_item p ps"
  have d: "detect_content_type text = (fst b, min (snd b) 1)"
    using n by (simp add: detect_content_type_def c b_def Let_def)
  have m: "b \<in> set (category_scores text)"
    unfolding b_def c by (rule py_max_item_mem)
  have u: "\<forall>(t', s') \<in> set (category_scores text). s' \<le> snd b"
    unfolding b_def c using py_max_item_upper [of _ p ps] by fastforce
  from d m u show ?thesis
    by (cases b) auto
qed

text \<open>
  Claim C8. For every text handed to the heuristic detection (the detector hands it the
  folded text): the score of an indicator list without repetitions is the number of its
  distinct words that occur in the text divided by the length of the list, and none of
  the six lists repeats a word; the scores are those of the six categories fiction,
  horror, comedy, technical, academic and artistic; when every score is below \<open>1/10\<close>
  the result is the unknown type with confidence 0; otherwise the result is a category
  whose score is the highest of the six, with that score capped at 1 as confidence.
\<close>

theorem detect_content_type_spec:
  "(distinct ind \<longrightarrow>
      calculate_indicator_score text ind
        = of_nat (card {w \<in> set ind. sublist w text}) / of_nat (length ind))
   \<and> list_all distinct
        [FICTION_INDICATORS, HORROR_INDICATORS, COMEDY_INDICATORS, TECHNICAL_INDICATORS,
         ACADEMIC_INDICATORS, ARTISTIC_INDICATORS]
   \<and> category_scores text =
        map (\<lambda>(t, ind). (t, calculate_indicator_score text ind))
          [(FICTION, FICTION_INDICATORS), (HORROR, HORROR_INDICATORS),
           (COMEDY, COMEDY_INDICATORS), (TECHNICAL, TECHNICAL_INDICATORS),
           (ACADEMIC, ACADEMIC_INDICATORS), (ARTISTIC, ARTISTIC_INDICATORS)]
   \<and> ((\<forall>(t, s) \<in> set (category_scores text). s < 1 / 10)
        \<longrightarrow> detect_content_type text = (UNKNOWN, 0))
   \<and> ((\<exists>(t, s) \<in> set (category_scores text). 1 / 10 \<le> s)
        \<longrightarrow> (\<exists>(t, s) \<in> set (category_scores text).
               detect_content_type text = (t, min s 1)
               \<and> (\<forall>(t', s') \<in> set (category_scores text). s' \<le> s)))"
  using indicator_score_card [of ind "text"] indicator_lists_distinct
    detect_content_type_unknown [of "text"] detect_content_type_best [of "text"]
  by (simp add: category_scores_def)

lemma category_scores_art:
  "category_scores ''art'' =
     [(FICTION, 0), (HORROR, 0), (COMEDY, 0), (TECHNICAL, 0), (ACADEMIC, 0),
      (ARTISTIC, 1 / 10)]"
  by (simp add: category_scores_def calculate_indicator_score_def str_contains_def
      sublist_Cons_right
      FICTION_INDICATORS_def HORROR_INDICATORS_def COMEDY_INDICATORS_def
      TECHNICAL_INDICATORS_def ACADEMIC_INDICATORS_def ARTISTIC_INDICATORS_def)

lemma category_scores_empty:
  "category_scores [] =
     [(FICTION, 0), (HORROR, 0), (COMEDY, 0), (TECHNICAL, 0), (ACADEMIC, 0), (ARTISTIC, 0)]"
  by (simp add: category_scores_def calculate_indicator_score_def str_contains_def
      FICTION_INDICATORS_def HORROR_INDICATORS_def COMEDY_INDICATORS_def
      TECHNICAL_INDICATORS_def ACADEMIC_INDICATORS_def ARTISTIC_INDICATORS_def)

text \<open>
  Instances: the text \<open>art\<close> contains one of the ten artistic indicators and none of
  the others; the empty text contains no indicator.
\<close>

theorem detect_content_type_spec_witness:
  "detect_content_type ''art'' = (ARTISTIC, 1 / 10)
   \<and> detect_content_type [] = (UNKNOWN, 0)
   \<and> calculate_indicator_score ''art'' ARTISTIC_INDICATORS
       = of_nat (card {w \<in> set ARTISTIC_INDICATORS. sublist w ''art''}) / 10"
proof -
  note a = detect_content_type_spec [of ARTISTIC_INDICATORS "''art''"]
  note e = detect_content_type_spec [of "[]" "[]"]
  have d: "distinct ARTISTIC_INDICATORS" "length ARTISTIC_INDICATORS = 10"
    by (simp_all add: ARTISTIC_INDICATORS_def)
  have 1: "detect_content_type ''art'' = (ARTISTIC, 1 / 10)"
    using a [THEN conjunct2, THEN conjunct2, THEN conjunct2, THEN conjunct2]
    by (simp add: category_scores_art)
  have 2: "detect_content_type [] = (UNKNOWN, 0)"
    using e [THEN conjunct2, THEN conjunct2, THEN conjunct2, THEN conjunct1]
    by (simp add: category_scores_empty)
  have 3: "calculate_indicator_score ''art'' ARTISTIC_INDICATORS
       = of_nat (card {w \<in> set ARTISTIC_INDICATORS. sublist w ''art''}) / 10"
    using a [THEN conjunct1] d by simp
  from 1 2 3 show ?thesis by blast
qed

section \<open>Counting occurrences\<close>

lemma prefix_sublist_str: "prefix m s \<Longrightarrow> sublist m s"
  by (auto simp: prefix_def)

lemma str_count_Nil: "m \<noteq> [] \<Longrightarrow> str_count [] m = 0"
  by (simp add: str_count.simps)

lemma str_count_match:
  "m \<noteq> [] \<Longrightarrow> s \<noteq> [] \<Longrightarrow> prefix m s \<Longrightarrow>
   str_count s m = 1 + str_count (drop (length m) s) m"
  by (subst str_count.simps) simp

lemma str_count_skip:
  "m \<noteq> [] \<Longrightarrow> s \<noteq> [] \<Longrightarrow> \<not> prefix m s \<Longrightarrow> str_count s m = str_count (tl s) m"
  by (subst str_count.simps) simp

lemma str_count_pos_iff: "m \<noteq> [] \<Longrightarrow> (0 < str_count s m) = sublist m s"
proof (induction s m rule: str_count.induct)
  case (1 s sub)
  show ?case
  proof (cases "s = []")
    case True
    with 1 show ?thesis by (simp add: str_count_Nil)
  next
    case False
    show ?thesis
    proof (cases "prefix sub s")
      case True
      then show ?thesis
        using 1 False by (simp add: str_count_match prefix_sublist_str)
    next
      case p: False
      have "(0 < str_count (tl s) sub) = sublist sub (tl s)"
        using 1 False p by simp
      moreover have "sublist sub s = sublist sub (tl s)"
        using False p by (cases s) (simp_all add: sublist_Cons_right)
      ultimately show ?thesis
        using 1 False p by (simp add: str_count_skip)
    qed
  qed
qed

lemma str_count_fits: "m \<noteq> [] \<Longrightarrow> length m * str_count s m \<le> length s"
proof (induction s m rule: str_count.induct)
  case (1 s sub)
  show ?case
  proof (cases "s = []")
    case True
    with 1 show ?thesis by (simp add: str_count_Nil)
  next
    case False
    show ?thesis
    proof (cases "prefix sub s")
      case True
      then have l: "length sub \<le> length s" by (rule prefix_length_le)
      have "length sub * str_count (drop (length sub) s) sub \<le> length (drop (length sub) s)"
        using 1 False True by simp
      then have "length sub * str_count (drop (length sub) s) sub + length sub \<le> length s"
        using l by simp
      then show ?thesis
        using 1 False True by (simp add: str_count_match)
    next
      case p: False
      have "length sub * str_count (tl s) sub \<le> length (tl s)"
        using 1 False p by simp
      then show ?thesis
        using 1 False p by (simp add: str_count_skip)
    qed
  qed
qed

lemma str_count_zero_by_char: "list_ex (\<lambda>c. c \<notin> set t) m \<Longrightarrow> str_count t m = 0"
proof -
  assume a: "list_ex (\<lambda>c. c \<notin> set t) m"
  then have ne: "m \<noteq> []" by auto
  have "\<not> sublist m t"
  proof
    assume "sublist m t"
    then have "set m \<subseteq> set t" by (rule set_mono_sublist)
    with a show False by (auto simp: list_ex_iff)
  qed
  with str_count_pos_iff [OF ne, of t] show ?thesis by simp
qed

lemma zero_counts_by_chars:
  "list_all (\<lambda>m. if list_ex (\<lambda>c. c \<notin> set t) m then True else str_count t m = 0) ms
   \<Longrightarrow> \<forall>m \<in> set ms. str_count t m = 0"
  by (auto simp: list_all_iff str_count_zero_by_char split: if_splits)

lemma count_fold_none:
  "\<forall>m \<in> set ms. str_count t m = 0 \<Longrightarrow>
   fold (\<lambda>marker hits.
           let count = str_count t marker
           in if count > 0 then AList.update marker count hits else hits) ms h = h"
  by (induction ms arbitrary: h) simp_all

lemma count_markers_none:
  "\<forall>m \<in> set ms. str_count t m = 0 \<Longrightarrow> count_markers ms t = []"
  unfolding count_markers_def by (rule count_fold_none)

lemma count_markers_single:
  "0 < str_count t m \<Longrightarrow> \<forall>x \<in> set ms. str_count t x = 0 \<Longrightarrow>
   count_markers (m # ms) t = [(m, str_count t m)]"
  unfolding count_markers_def by (simp add: count_fold_none [unfolded Let_def] Let_def)

section \<open>The hit maps\<close>

lemma count_fold_map_of:
  "map_of (fold (\<lambda>marker hits.
                   let count = str_count t marker
                   in if count > 0 then AList.update marker count hits else hits) ms h) m
   = (if m \<in> set ms \<and> 0 < str_count t m then Some (str_count t m) else map_of h m)"
  by (induction ms arbitrary: h) (simp_all add: Let_def update_conv')

lemma count_fold_distinct:
  "distinct (map fst h) \<Longrightarrow>
   distinct (map fst (fold (\<lambda>marker hits.
                   let count = str_count t marker
                   in if count > 0 then AList.update marker count hits else hits) ms h))"
  by (induction ms arbitrary: h) (simp_all add: Let_def distinct_update)

lemma update_values: "snd ` set (AList.update k v al) \<subseteq> insert v (snd ` set al)"
  by (induction al) auto

lemma count_fold_positive:
  "0 \<notin> snd ` set h \<Longrightarrow>
   0 \<notin> snd ` set (fold (\<lambda>marker hits.
                   let count = str_count t marker
                   in if count > 0 then AList.update marker count hits else hits) ms h)"
proof (induction ms arbitrary: h)
  case Nil
  then show ?case by simp
next
  case (Cons a ms)
  have "0 \<notin> snd ` set (AList.update a (str_count t a) h)" if "0 < str_count t a"
    using that Cons.prems update_values [of a "str_count t a" h] by auto
  with Cons show ?case by (simp add: Let_def)
qed

lemma count_markers_map_of:
  "map_of (count_markers ms t) m
   = (if m \<in> set ms \<and> 0 < str_count t m then Some (str_count t m) else None)"
  unfolding count_markers_def by (simp add: count_fold_map_of)

lemma count_markers_distinct: "distinct (map fst (count_markers ms t))"
  unfolding count_markers_def by (rule count_fold_distinct) simp

lemma count_markers_positive: "0 \<notin> snd ` set (count_markers ms t)"
  unfolding count_markers_def by (rule count_fold_positive) simp

section \<open>Evaluating the scanner and the detector on a text\<close>

lemma update_fresh: "k \<notin> fst ` set al \<Longrightarrow> AList.update k v al = al @ [(k, v)]"
  by (induction al) auto

lemma count_fold_filter:
  "distinct (filter (\<lambda>m. 0 < str_count t m) ms) \<Longrightarrow>
   \<forall>m \<in> set ms. 0 < str_count t m \<longrightarrow> m \<notin> fst ` set h \<Longrightarrow>
   fold (\<lambda>marker hits.
           let count = str_count t marker
           in if count > 0 then AList.update marker count hits else hits) ms h
   = h @ map (\<lambda>m. (m, str_count t m)) (filter (\<lambda>m. 0 < str_count t m) ms)"
proof (induction ms arbitrary: h)
  case Nil
  show ?case by simp
next
  case (Cons a ms)
  show ?case
  proof (cases "0 < str_count t a")
    case True
    have f: "a \<notin> fst ` set h" using Cons.prems(2) True by simp
    have d: "distinct (filter (\<lambda>m. 0 < str_count t m) ms)"
      and n: "a \<notin> set (filter (\<lambda>m. 0 < str_count t m) ms)"
      using Cons.prems(1) True by simp_all
    have p: "\<forall>m \<in> set ms. 0 < str_count t m \<longrightarrow> m \<notin> fst ` set (h @ [(a, str_count t a)])"
      using Cons.prems(2) n by auto
    show ?thesis
      using True Cons.IH [OF d p] by (simp add: Let_def update_fresh [OF f])
  next
    case False
    have d: "distinct (filter (\<lambda>m. 0 < str_count t m) ms)"
      using Cons.prems(1) False by simp
    have p: "\<forall>m \<in> set ms. 0 < str_count t m \<longrightarrow> m \<notin> fst ` set h"
      using Cons.prems(2) by simp
    show ?thesis
      using False Cons.IH [OF d p] by (simp add: Let_def)
  qed
qed

lemma count_markers_eval:
  assumes "filter (\<lambda>m. m \<in> set ps) ms = ps"
    and "distinct ps"
    and "list_all (\<lambda>m. 0 < str_count t m) ps"
    and "set t \<subseteq> set cs"
    and "list_all (\<lambda>m. if m \<in> set ps then True
                         else if list_ex (\<lambda>c. c \<notin> set cs) m then True
                         else str_count t m = 0) ms"
  shows "count_markers ms t = map (\<lambda>m. (m, str_count t m)) ps"
proof -
  have "(0 < str_count t m) = (m \<in> set ps)" if "m \<in> set ms" for m
  proof (cases "m \<in> set ps")
    case True
    with assms(3) show ?thesis by (simp add: list_all_iff)
  next
    case False
    have "str_count t m = 0" if "list_ex (\<lambda>c. c \<notin> set cs) m"
      using that assms(4) by (intro str_count_zero_by_char) (auto simp: list_ex_iff)
    with False assms(5) \<open>m \<in> set ms\<close> have "str_count t m = 0"
      by (auto simp: list_all_iff split: if_splits)
    with False show ?thesis by simp
  qed
  then have "filter (\<lambda>m. 0 < str_count t m) ms = filter (\<lambda>m. m \<in> set ps) ms"
    by (auto intro: filter_cong)
  with assms(1) have f: "filter (\<lambda>m. 0 < str_count t m) ms = ps" by simp
  show ?thesis
    unfolding count_markers_def
    using count_fold_filter [of t ms "[]"] f assms(2) by simp
qed

lemma no_indicator_by_chars:
  "set t \<subseteq> set cs \<Longrightarrow>
   list_all (\<lambda>w. if list_ex (\<lambda>c. c \<notin> set cs) w then True else \<not> sublist w t) ws \<Longrightarrow>
   calculate_indicator_score t ws = 0"
proof -
  assume s: "set t \<subseteq> set cs"
    and a: "list_all (\<lambda>w. if list_ex (\<lambda>c. c \<notin> set cs) w then True else \<not> sublist w t) ws"
  have "\<not> sublist w t" if "w \<in> set ws" for w
  proof (cases "list_ex (\<lambda>c. c \<notin> set cs) w")
    case True
    show ?thesis
    proof
      assume "sublist w t"
      then have "set w \<subseteq> set t" by (rule set_mono_sublist)
      with True s show False by (auto simp: list_ex_iff)
    qed
  next
    case False
    with a that show ?thesis by (auto simp: list_all_iff)
  qed
  then have "filter (\<lambda>w. str_contains w t) ws = []"
    by (auto simp: str_contains_def filter_empty_conv)
  then show ?thesis by (simp add: calculate_indicator_score_def)
qed


lemma detect_heuristic_no_indicator:
  "category_scores t =
     [(FICTION, 0), (HORROR, 0), (COMEDY, 0), (TECHNICAL, 0), (ACADEMIC, 0), (ARTISTIC, 0)]
   \<Longrightarrow> detect_heuristic t =
     \<lparr>content_type = UNKNOWN, genre = PyNone, intent = PyNone, audience = PyNone,
      creative_license = PyBool False, confidence = 0, metadata = []\<rparr>"
  by (simp add: detect_heuristic_def detect_content_type_def py_max_def
      detect_genre_def detect_intent_def has_creative_license_def)

lemma category_scores_none:
  "set t \<subseteq> set cs \<Longrightarrow>
   list_all (\<lambda>ws. list_all (\<lambda>w. if list_ex (\<lambda>c. c \<notin> set cs) w then True
                                  else \<not> sublist w t) ws)
     [FICTION_INDICATORS, HORROR_INDICATORS, COMEDY_INDICATORS, TECHNICAL_INDICATORS,
      ACADEMIC_INDICATORS, ARTISTIC_INDICATORS] \<Longrightarrow>
   category_scores t =
     [(FICTION, 0), (HORROR, 0), (COMEDY, 0), (TECHNICAL, 0), (ACADEMIC, 0), (ARTISTIC, 0)]"
  by (simp add: category_scores_def no_indicator_by_chars)

section \<open>The scanner on the empty text\<close>

lemma str_count_empty_text: "m \<noteq> [] \<Longrightarrow> str_count [] m = 0"
  by (simp add: str_count.simps)

lemma separation_markers_nonempty: "[] \<notin> set SEPARATION_MARKERS"
  by (simp add: SEPARATION_MARKERS_def)

lemma unity_markers_nonempty: "[] \<notin> set UNITY_MARKERS"
  by (simp add: UNITY_MARKERS_def)

lemma count_markers_empty_text:
  "count_markers SEPARATION_MARKERS [] = []" "count_markers UNITY_MARKERS [] = []"
  using separation_markers_nonempty unity_markers_nonempty
  by (auto intro!: count_markers_none str_count_empty_text)

lemma v1_keyword_calculate_empty:
  "lower text = [] \<Longrightarrow>
   v1_keyword_calculate lower text =
     Inr \<lparr>coefficient = 1 / 2, analysis_method = ''V1: Keyword Lexicon Density'',
          separation_hits = [], unity_hits = [], conscious_reframing = BALANCED_MESSAGE\<rparr>"
  by (simp add: v1_keyword_calculate_def count_markers_empty_text
      calculate_from_hits_eq sum_values_def py_round_half)

lemma ascii_lower_Nil: "ascii_lower [] = []"
  by (simp add: ascii_lower_def)

section \<open>The context block of the report\<close>

text \<open>
  Claim C1 asks for a report that carries the contextual analysis in a field
  \<open>context_info\<close> exactly when the analysis was requested. What the code does: the
  constructor drops the keyword \<open>context_info\<close>, so a report built with a contextual
  analysis is the report built without one; with the flag off the public operation
  returns the base report, message included; with the flag on the returned report
  consists of the five declared fields, of which only the message depends on the
  contextual analysis, as for the empty text.
\<close>

theorem context_info_not_stored:
  "make_UnityReport c m sh uh msg (Some cd) = make_UnityReport c m sh uh msg None
   \<and> get_unity_report lower text user_context False = v1_keyword_calculate lower text
   \<and> get_unity_report ascii_lower [] None True =
       Inr \<lparr>coefficient = 1 / 2, analysis_method = ''V1: Keyword Lexicon Density'',
            separation_hits = [], unity_hits = [],
            conscious_reframing =
              ''Unity Coefficient: 0.50 - Balanced alignment'' @ NL @ NL @ BALANCED_MESSAGE\<rparr>"
proof -
  have a: "make_UnityReport c m sh uh msg (Some cd) = make_UnityReport c m sh uh msg None"
    by (simp add: make_UnityReport_def)
  have b: "get_unity_report lower text user_context False = v1_keyword_calculate lower text"
    by (simp add: get_unity_report_def split: sum.split)
  have d: "detect ascii_lower [] None =
     \<lparr>content_type = UNKNOWN, genre = PyNone, intent = PyNone, audience = PyNone,
      creative_license = PyBool False, confidence = 0, metadata = []\<rparr>"
    by (simp add: detect_def ascii_lower_Nil detect_heuristic_empty)
  have e: "get_unity_report ascii_lower [] None True =
       Inr \<lparr>coefficient = 1 / 2, analysis_method = ''V1: Keyword Lexicon Density'',
            separation_hits = [], unity_hits = [],
            conscious_reframing =
              ''Unity Coefficient: 0.50 - Balanced alignment'' @ NL @ NL @ BALANCED_MESSAGE\<rparr>"
    by (simp add: get_unity_report_def v1_keyword_calculate_empty ascii_lower_Nil
        contextualize_analysis_def
        contextualize_coefficient_def d interpret_coefficient_def should_suggest_reframing_def
        generate_context_aware_reframing_def make_UnityReport_def format_2f_half Let_def)
  from a b e show ?thesis by blast
qed

section \<open>The stored coefficient and the base message\<close>

lemma messages_distinct:
  "HIGH_UNITY_MESSAGE \<noteq> BALANCED_MESSAGE"
  "HIGH_UNITY_MESSAGE \<noteq> SEPARATION_MESSAGE"
  "BALANCED_MESSAGE \<noteq> SEPARATION_MESSAGE"
  by (simp_all add: HIGH_UNITY_MESSAGE_def BALANCED_MESSAGE_def SEPARATION_MESSAGE_def)

lemma joy_block: "str_count (''joy '' @ xs) ''joy'' = 1 + str_count xs ''joy''"
proof -
  have "str_count (''joy '' @ xs) ''joy'' = 1 + str_count (CHR '' '' # xs) ''joy''"
    by (subst str_count_match) simp_all
  also have "str_count (CHR '' '' # xs) ''joy'' = str_count xs ''joy''"
    by (subst str_count_skip) simp_all
  finally show ?thesis .
qed

lemma sin_block: "str_count (''sin '' @ xs) ''sin'' = 1 + str_count xs ''sin''"
proof -
  have "str_count (''sin '' @ xs) ''sin'' = 1 + str_count (CHR '' '' # xs) ''sin''"
    by (subst str_count_match) simp_all
  also have "str_count (CHR '' '' # xs) ''sin'' = str_count xs ''sin''"
    by (subst str_count_skip) simp_all
  finally show ?thesis .
qed

lemma joy_block_sin: "str_count (''joy '' @ xs) ''sin'' = str_count xs ''sin''"
proof -
  have "str_count (''joy '' @ xs) ''sin'' = str_count (''oy '' @ xs) ''sin''"
    by (subst str_count_skip) simp_all
  also have "\<dots> = str_count (''y '' @ xs) ''sin''"
    by (subst str_count_skip) simp_all
  also have "\<dots> = str_count (CHR '' '' # xs) ''sin''"
    by (subst str_count_skip) simp_all
  also have "\<dots> = str_count xs ''sin''"
    by (subst str_count_skip) simp_all
  finally show ?thesis .
qed

lemma joy_blocks:
  "str_count (concat (replicate n ''joy '') @ xs) ''joy'' = n + str_count xs ''joy''"
proof (induction n)
  case 0
  show ?case by simp
next
  case (Suc n)
  have "str_count (concat (replicate (Suc n) ''joy '') @ xs) ''joy''
        = str_count (''joy '' @ (concat (replicate n ''joy '') @ xs)) ''joy''"
    by simp
  also have "\<dots> = 1 + str_count (concat (replicate n ''joy '') @ xs) ''joy''"
    by (rule joy_block)
  finally show ?case using Suc by simp
qed

lemma sin_blocks:
  "str_count (concat (replicate n ''sin '') @ xs) ''sin'' = n + str_count xs ''sin''"
proof (induction n)
  case 0
  show ?case by simp
next
  case (Suc n)
  have "str_count (concat (replicate (Suc n) ''sin '') @ xs) ''sin''
        = str_count (''sin '' @ (concat (replicate n ''sin '') @ xs)) ''sin''"
    by simp
  also have "\<dots> = 1 + str_count (concat (replicate n ''sin '') @ xs) ''sin''"
    by (rule sin_block)
  finally show ?case using Suc by simp
qed

lemma joy_blocks_sin:
  "str_count (concat (replicate n ''joy '') @ xs) ''sin'' = str_count xs ''sin''"
proof (induction n)
  case 0
  show ?case by simp
next
  case (Suc n)
  have "str_count (concat (replicate (Suc n) ''joy '') @ xs) ''sin''
        = str_count (''joy '' @ (concat (replicate n ''joy '') @ xs)) ''sin''"
    by simp
  also have "\<dots> = str_count (concat (replicate n ''joy '') @ xs) ''sin''"
    by (rule joy_block_sin)
  finally show ?case using Suc by simp
qed

lemma blocks_chars:
  "set (concat (replicate a ''joy '') @ concat (replicate b ''sin '')) \<subseteq> set ''joy sin''"
  by (auto simp: set_replicate_conv_if split: if_splits)

lemma blocks_joy:
  "str_count (concat (replicate a ''joy '') @ concat (replicate b ''sin '')) ''joy'' = a"
proof -
  have "list_ex (\<lambda>c. c \<notin> set (concat (replicate b ''sin ''))) ''joy''"
    by (auto simp: set_replicate_conv_if split: if_splits)
  then have "str_count (concat (replicate b ''sin '')) ''joy'' = 0"
    by (rule str_count_zero_by_char)
  then show ?thesis by (simp add: joy_blocks)
qed

lemma blocks_sin:
  "str_count (concat (replicate a ''joy '') @ concat (replicate b ''sin '')) ''sin'' = b"
  using sin_blocks [of b "[]"] by (simp add: joy_blocks_sin str_count_Nil)

lemma blocks_lower:
  "ascii_lower (concat (replicate a ''joy '') @ concat (replicate b ''sin ''))
   = concat (replicate a ''joy '') @ concat (replicate b ''sin '')"
  by (simp add: ascii_lower_def map_concat ascii_lower_char_def)

lemma blocks_separation:
  "0 < b \<Longrightarrow>
   count_markers SEPARATION_MARKERS
     (concat (replicate a ''joy '') @ concat (replicate b ''sin '')) = [(''sin'', b)]"
proof -
  assume b: "0 < b"
  have "count_markers SEPARATION_MARKERS
          (concat (replicate a ''joy '') @ concat (replicate b ''sin ''))
        = map (\<lambda>m. (m, str_count (concat (replicate a ''joy '') @ concat (replicate b ''sin '')) m))
            [''sin'']"
  proof (rule count_markers_eval [where cs = "''joy sin''"])
    show "filter (\<lambda>m. m \<in> set [''sin'']) SEPARATION_MARKERS = [''sin'']"
      by (simp add: SEPARATION_MARKERS_def)
    show "distinct [''sin'']" by simp
    show "list_all (\<lambda>m. 0 < str_count (concat (replicate a ''joy '') @ concat (replicate b ''sin '')) m)
            [''sin'']"
      using b by (simp add: blocks_sin)
    show "set (concat (replicate a ''joy '') @ concat (replicate b ''sin '')) \<subseteq> set ''joy sin''"
      by (rule blocks_chars)
    show "list_all (\<lambda>m. if m \<in> set [''sin''] then True
                         else if list_ex (\<lambda>c. c \<notin> set ''joy sin'') m then True
                         else str_count (concat (replicate a ''joy '') @ concat (replicate b ''sin '')) m = 0)
            SEPARATION_MARKERS"
      by (simp add: SEPARATION_MARKERS_def)
  qed
  then show ?thesis by (simp add: blocks_sin)
qed

lemma blocks_unity:
  "0 < a \<Longrightarrow>
   count_markers UNITY_MARKERS
     (concat (replicate a ''joy '') @ concat (replicate b ''sin '')) = [(''joy'', a)]"
proof -
  assume a: "0 < a"
  have "count_markers UNITY_MARKERS
          (concat (replicate a ''joy '') @ concat (replicate b ''sin ''))
        = map (\<lambda>m. (m, str_count (concat (replicate a ''joy '') @ concat (replicate b ''sin '')) m))
            [''joy'']"
  proof (rule count_markers_eval [where cs = "''joy sin''"])
    show "filter (\<lambda>m. m \<in> set [''joy'']) UNITY_MARKERS = [''joy'']"
      by (simp add: UNITY_MARKERS_def)
    show "distinct [''joy'']" by simp
    show "list_all (\<lambda>m. 0 < str_count (concat (replicate a ''joy '') @ concat (replicate b ''sin '')) m)
            [''joy'']"
      using a by (simp add: blocks_joy)
    show "set (concat (replicate a ''joy '') @ concat (replicate b ''sin '')) \<subseteq> set ''joy sin''"
      by (rule blocks_chars)
    show "list_all (\<lambda>m. if m \<in> set [''joy''] then True
                         else if list_ex (\<lambda>c. c \<notin> set ''joy sin'') m then True
                         else str_count (concat (replicate a ''joy '') @ concat (replicate b ''sin '')) m = 0)
            UNITY_MARKERS"
      by (simp add: UNITY_MARKERS_def)
  qed
  then show ?thesis by (simp add: blocks_joy)
qed

lemma blocks_detect:
  "detect ascii_lower (concat (replicate a ''joy '') @ concat (replicate b ''sin '')) None =
     \<lparr>content_type = UNKNOWN, genre = PyNone, intent = PyNone, audience = PyNone,
      creative_license = PyBool False, confidence = 0, metadata = []\<rparr>"
proof -
  have "category_scores (concat (replicate a ''joy '') @ concat (replicate b ''sin '')) =
     [(FICTION, 0), (HORROR, 0), (COMEDY, 0), (TECHNICAL, 0), (ACADEMIC, 0), (ARTISTIC, 0)]"
    by (rule category_scores_none [where cs = "''joy sin''"], rule blocks_chars)
       (simp add: FICTION_INDICATORS_def HORROR_INDICATORS_def COMEDY_INDICATORS_def
          TECHNICAL_INDICATORS_def ACADEMIC_INDICATORS_def ARTISTIC_INDICATORS_def)
  then show ?thesis
    by (simp add: detect_def blocks_lower detect_heuristic_no_indicator)
qed

lemma format_2f_three_quarters: "format_2f (3 / 4) = ''0.75''"
  by (simp add: format_2f_def td_three_quarters round_half_even_def show_nat.simps
      digit_char_def Let_def)

lemma blocks_report:
  "v1_keyword_calculate ascii_lower
     (concat (replicate 3752 ''joy '') @ concat (replicate 1251 ''sin '')) =
     Inr \<lparr>coefficient = 3 / 4, analysis_method = ''V1: Keyword Lexicon Density'',
          separation_hits = [(''sin'', 1251)], unity_hits = [(''joy'', 3752)],
          conscious_reframing = BALANCED_MESSAGE\<rparr>"
  by (simp add: v1_keyword_calculate_def blocks_lower blocks_separation blocks_unity
      calculate_from_hits_eq sum_values_def td_sample py_round_td_sample)

text \<open>
  Claim C2 selects the base message by the coefficient that the report stores: from
  \<open>0.75\<close> on the high-unity message. What the code does for the text of 3752 times
  \<open>joy\<close> and 1251 times \<open>sin\<close>, each followed by a blank: the totals are 1251 and 3752,
  the quotient \<open>3752/5003\<close> is below \<open>0.75\<close> and rounds to \<open>0.75\<close>; the report stores the
  coefficient \<open>0.75\<close> with the balanced message, and with the contextual analysis the
  final message calls the stored coefficient a high unity alignment and goes on with
  the balanced message.
\<close>

theorem stored_coefficient_message_mismatch:
  "get_unity_report ascii_lower
     (concat (replicate 3752 ''joy '') @ concat (replicate 1251 ''sin '')) None False =
     Inr \<lparr>coefficient = 3 / 4, analysis_method = ''V1: Keyword Lexicon Density'',
          separation_hits = [(''sin'', 1251)], unity_hits = [(''joy'', 3752)],
          conscious_reframing = BALANCED_MESSAGE\<rparr>
   \<and> BALANCED_MESSAGE \<noteq> HIGH_UNITY_MESSAGE
   \<and> get_unity_report ascii_lower
       (concat (replicate 3752 ''joy '') @ concat (replicate 1251 ''sin '')) None True =
     Inr \<lparr>coefficient = 3 / 4, analysis_method = ''V1: Keyword Lexicon Density'',
          separation_hits = [(''sin'', 1251)], unity_hits = [(''joy'', 3752)],
          conscious_reframing =
            ''Unity Coefficient: 0.75 - High unity alignment'' @ NL @ NL @ BALANCED_MESSAGE\<rparr>"
  by (simp add: get_unity_report_def blocks_report contextualize_analysis_def
      contextualize_coefficient_def blocks_detect interpret_coefficient_def
      should_suggest_reframing_def generate_context_aware_reframing_def make_UnityReport_def
      format_2f_three_quarters messages_distinct [symmetric] Let_def)

section \<open>The scanner on a sample text\<close>

lemma love_text_lower: "ascii_lower ''love love love fear'' = ''love love love fear''"
  by (simp add: ascii_lower_def ascii_lower_char_def)

lemma love_text_unity:
  "count_markers UNITY_MARKERS ''love love love fear'' = [(''love'', 3)]"
proof -
  have z: "\<forall>m \<in> set (tl UNITY_MARKERS). str_count ''love love love fear'' m = 0"
    by (rule zero_counts_by_chars) (simp add: UNITY_MARKERS_def str_count.simps)
  have c: "str_count ''love love love fear'' ''love'' = 3"
    by (simp add: str_count.simps)
  have u: "UNITY_MARKERS = ''love'' # tl UNITY_MARKERS"
    by (simp add: UNITY_MARKERS_def)
  show ?thesis
    using count_markers_single [of "''love love love fear''" "''love''" "tl UNITY_MARKERS"] z c u
    by simp
qed

lemma love_text_separation:
  "count_markers SEPARATION_MARKERS ''love love love fear'' = [(''fear'', 1)]"
proof -
  have z: "\<forall>m \<in> set (tl SEPARATION_MARKERS). str_count ''love love love fear'' m = 0"
    by (rule zero_counts_by_chars) (simp add: SEPARATION_MARKERS_def str_count.simps)
  have c: "str_count ''love love love fear'' ''fear'' = 1"
    by (simp add: str_count.simps)
  have u: "SEPARATION_MARKERS = ''fear'' # tl SEPARATION_MARKERS"
    by (simp add: SEPARATION_MARKERS_def)
  show ?thesis
    using count_markers_single [of "''love love love fear''" "''fear''" "tl SEPARATION_MARKERS"] z c u
    by simp
qed

lemma love_text_report:
  "lower ''love love love fear'' = ''love love love fear'' \<Longrightarrow>
   v1_keyword_calculate lower ''love love love fear'' =
     Inr \<lparr>coefficient = 3 / 4, analysis_method = ''V1: Keyword Lexicon Density'',
          separation_hits = [(''fear'', 1)], unity_hits = [(''love'', 3)],
          conscious_reframing = HIGH_UNITY_MESSAGE\<rparr>"
  by (simp add: v1_keyword_calculate_def love_text_unity love_text_separation
      calculate_from_hits_eq sum_values_def td_three_quarters py_round_three_quarters)

section \<open>The marker scanner\<close>

text \<open>
  Claim C3. For every text, the empty one included, and whatever the case folding does:
  \<open>v1_keyword_calculate\<close> returns a report whose hit maps are taken from the folded
  text, each marker on its own: a marker of a lexicon is a key of the lexicon's hit map
  exactly when its count in the folded text is positive, and its entry is that count; no
  key occurs twice and no entry is zero; two texts with the same folding have the same
  report. The count of a non-empty marker is positive exactly when the marker occurs in
  the text as a substring, and that many copies of the marker fit into the text without
  overlap. The text \<open>love love love fear\<close>, which the folding leaves as it is, has the
  unity hits \<open>love: 3\<close>, the separation hits \<open>fear: 1\<close> and the coefficient \<open>0.75\<close>.
\<close>

theorem marker_scanner_spec:
  "\<exists>rep. v1_keyword_calculate lower text = Inr rep
     \<and> map_of (separation_hits rep) m =
         (if m \<in> set SEPARATION_MARKERS \<and> 0 < str_count (lower text) m
          then Some (str_count (lower text) m) else None)
     \<and> map_of (unity_hits rep) m =
         (if m \<in> set UNITY_MARKERS \<and> 0 < str_count (lower text) m
          then Some (str_count (lower text) m) else None)
     \<and> distinct (map fst (separation_hits rep)) \<and> distinct (map fst (unity_hits rep))
     \<and> 0 \<notin> snd ` set (separation_hits rep) \<and> 0 \<notin> snd ` set (unity_hits rep)
     \<and> (lower text' = lower text \<longrightarrow> v1_keyword_calculate lower text' = Inr rep)
     \<and> (m \<noteq> [] \<longrightarrow> (0 < str_count (lower text) m) = sublist m (lower text)
                    \<and> length m * str_count (lower text) m \<le> length (lower text))
     \<and> (lower ''love love love fear'' = ''love love love fear'' \<longrightarrow>
          v1_keyword_calculate lower ''love love love fear'' =
            Inr \<lparr>coefficient = 3 / 4, analysis_method = ''V1: Keyword Lexicon Density'',
                 separation_hits = [(''fear'', 1)], unity_hits = [(''love'', 3)],
                 conscious_reframing = HIGH_UNITY_MESSAGE\<rparr>)"
proof -
  define s where "s = count_markers SEPARATION_MARKERS (lower text)"
  define u where "u = count_markers UNITY_MARKERS (lower text)"
  have v: "v1_keyword_calculate lower x = calculate_from_hits s u" if "lower x = lower text" for x
    using that by (simp add: v1_keyword_calculate_def s_def u_def Let_def)
  have "\<exists>rep. calculate_from_hits s u = Inr rep
           \<and> separation_hits rep = s \<and> unity_hits rep = u"
    unfolding calculate_from_hits_eq Let_def by simp
  then obtain rep where r: "calculate_from_hits s u = Inr rep"
    and h: "separation_hits rep = s" "unity_hits rep = u"
    by blast
  have 1: "v1_keyword_calculate lower text = Inr rep"
    using v [of "text"] r by simp
  have 2: "lower text' = lower text \<longrightarrow> v1_keyword_calculate lower text' = Inr rep"
    using v [of text'] r by simp
  have 3: "m \<noteq> [] \<longrightarrow> (0 < str_count (lower text) m) = sublist m (lower text)
                    \<and> length m * str_count (lower text) m \<le> length (lower text)"
    by (simp add: str_count_pos_iff str_count_fits)
  have 4: "lower ''love love love fear'' = ''love love love fear'' \<longrightarrow>
          v1_keyword_calculate lower ''love love love fear'' =
            Inr \<lparr>coefficient = 3 / 4, analysis_method = ''V1: Keyword Lexicon Density'',
                 separation_hits = [(''fear'', 1)], unity_hits = [(''love'', 3)],
                 conscious_reframing = HIGH_UNITY_MESSAGE\<rparr>"
    using love_text_report [of lower] by blast
  show ?thesis
    using 1 2 3 4
    by (intro exI [of _ rep])
       (simp add: h s_def u_def count_markers_map_of count_markers_distinct
          count_markers_positive)
qed

text \<open>
  An instance with the folding of ASCII texts: the sample text, its entries, a marker
  that does not occur, and the same report for a spelling in mixed case.
\<close>

theorem marker_scanner_spec_witness:
  "\<exists>rep. v1_keyword_calculate ascii_lower ''love love love fear'' = Inr rep
     \<and> map_of (unity_hits rep) ''love'' = Some 3
     \<and> map_of (separation_hits rep) ''fear'' = Some 1
     \<and> map_of (unity_hits rep) ''unity'' = None
     \<and> coefficient rep = 3 / 4
     \<and> v1_keyword_calculate ascii_lower ''LOVE love LoVe Fear'' = Inr rep
     \<and> str_count ''love love love fear'' ''love'' = 3
     \<and> sublist ''love'' ''love love love fear''"
proof -
  have l: "ascii_lower ''LOVE love LoVe Fear'' = ascii_lower ''love love love fear''"
    by (simp add: ascii_lower_def ascii_lower_char_def char_of_def bit_Suc_0_iff)
  have c: "str_count ''love love love fear'' ''love'' = 3"
    by (simp add: str_count.simps)
  from marker_scanner_spec
    [of ascii_lower "''love love love fear''" "''love''" "''LOVE love LoVe Fear''"]
  obtain rep where r: "v1_keyword_calculate ascii_lower ''love love love fear'' = Inr rep"
    and i: "v1_keyword_calculate ascii_lower ''LOVE love LoVe Fear'' = Inr rep"
    and s: "(0 < str_count (ascii_lower ''love love love fear'') ''love'')
            = sublist ''love'' (ascii_lower ''love love love fear'')"
    and e: "v1_keyword_calculate ascii_lower ''love love love fear'' =
            Inr \<lparr>coefficient = 3 / 4, analysis_method = ''V1: Keyword Lexicon Density'',
                 separation_hits = [(''fear'', 1)], unity_hits = [(''love'', 3)],
                 conscious_reframing = HIGH_UNITY_MESSAGE\<rparr>"
    using l love_text_lower by auto
  have q: "rep = \<lparr>coefficient = 3 / 4, analysis_method = ''V1: Keyword Lexicon Density'',
              separation_hits = [(''fear'', 1)], unity_hits = [(''love'', 3)],
              conscious_reframing = HIGH_UNITY_MESSAGE\<rparr>"
    using r e by simp
  have b: "sublist ''love'' ''love love love fear''"
    using s c by (simp add: love_text_lower)
  show ?thesis
    using r i c b by (simp add: q)
qed

section \<open>Messages under creative license\<close>

lemma v1_keyword_calculate_total:
  "\<exists>base. v1_keyword_calculate lower text = Inr base
      \<and> 0 \<le> coefficient base \<and> coefficient base \<le> 1"
proof -
  have "\<exists>rep. calculate_from_hits s u = Inr rep
          \<and> 0 \<le> coefficient rep \<and> coefficient rep \<le> 1" for s u
    unfolding calculate_from_hits_eq Let_def
    using quotient_unit [of "sum_values s" "sum_values u"]
    by (simp add: py_round_unit)
  then show ?thesis
    unfolding v1_keyword_calculate_def Let_def by blast
qed

text \<open>
  Claim C9, as amended. Whenever the creative-license flag of the context is true, for
  every coefficient: the interpretation is the coefficient with two decimals followed
  by a label chosen by the content type, whatever the genre field holds: horror fiction
  for the content type horror, comedy/satire for the content type comedy, artistic
  expression for every other content type; with it goes the sentence that a low
  coefficient is expected, that the coefficient reflects the comedic intent, or that no
  restrictions are applied. Reframing is never deemed appropriate, and the final message
  is the interpretation followed by the block that recognises the creative expression,
  states that the artistic vision is respected and no reframing is suggested, and names
  the content type. The report of the public operation carries that message.
\<close>

theorem creative_license_messages:
  "truthy (creative_license cx) \<Longrightarrow>
     interpret_coefficient c cx =
       ''Unity Coefficient: '' @ format_2f c @
       (if content_type cx = HORROR then
          '' (Genre: Horror Fiction)'' @ NL @
          ''Low coefficient expected for this genre. Creative license respected.''
        else if content_type cx = COMEDY then
          '' (Genre: Comedy/Satire)'' @ NL @
          ''Coefficient reflects comedic/satirical intent. Creative expression honored.''
        else
          '' (Artistic Expression)'' @ NL @
          ''Creative license recognized. No restrictions applied.'')
     \<and> \<not> should_suggest_reframing c cx
     \<and> generate_context_aware_reframing base
          \<lparr>raw_coefficient = c, cd_context = cx, cd_interpretation = i, cd_notes = ns,
           reframing_appropriate = ra, creative_license_respected = r\<rparr>
        = i @ NL @ NL @ ''Creative Expression Recognized:'' @ NL @
          ''Your artistic vision is respected. No reframing suggested.'' @ NL @
          ''The consciousness patterns detected are appropriate for '' @
          ContentType_value (content_type cx) @ '' content.''
     \<and> (detect lower text uc = cx \<longrightarrow>
          (\<exists>rep. get_unity_report lower text uc True = Inr rep
             \<and> conscious_reframing rep =
                 interpret_coefficient (coefficient rep) cx @ NL @ NL @
                 ''Creative Expression Recognized:'' @ NL @
                 ''Your artistic vision is respected. No reframing suggested.'' @ NL @
                 ''The consciousness patterns detected are appropriate for '' @
                 ContentType_value (content_type cx) @ '' content.''
             \<and> sublist ''Your artistic vision is respected. No reframing suggested.''
                   (conscious_reframing rep)))"
proof -
  assume t: "truthy (creative_license cx)"
  have a: "interpret_coefficient c cx =
       ''Unity Coefficient: '' @ format_2f c @
       (if content_type cx = HORROR then
          '' (Genre: Horror Fiction)'' @ NL @
          ''Low coefficient expected for this genre. Creative license respected.''
        else if content_type cx = COMEDY then
          '' (Genre: Comedy/Satire)'' @ NL @
          ''Coefficient reflects comedic/satirical intent. Creative expression honored.''
        else
          '' (Artistic Expression)'' @ NL @
          ''Creative license recognized. No restrictions applied.'')"
    using t by (simp add: interpret_coefficient_def)
  have b: "\<not> should_suggest_reframing c cx"
    using t by (simp add: should_suggest_reframing_def)
  have g: "generate_context_aware_reframing bs
          \<lparr>raw_coefficient = x, cd_context = cx, cd_interpretation = j, cd_notes = ms,
           reframing_appropriate = q, creative_license_respected = p\<rparr>
        = j @ NL @ NL @ ''Creative Expression Recognized:'' @ NL @
          ''Your artistic vision is respected. No reframing suggested.'' @ NL @
          ''The consciousness patterns detected are appropriate for '' @
          ContentType_value (content_type cx) @ '' content.''" for bs x j ms q p
    using t by (simp add: generate_context_aware_reframing_def)
  have e: "\<exists>rep. get_unity_report lower text uc True = Inr rep
             \<and> conscious_reframing rep =
                 interpret_coefficient (coefficient rep) cx @ NL @ NL @
                 ''Creative Expression Recognized:'' @ NL @
                 ''Your artistic vision is respected. No reframing suggested.'' @ NL @
                 ''The consciousness patterns detected are appropriate for '' @
                 ContentType_value (content_type cx) @ '' content.''
             \<and> sublist ''Your artistic vision is respected. No reframing suggested.''
                   (conscious_reframing rep)" if d: "detect lower text uc = cx"
  proof -
    obtain bse where v: "v1_keyword_calculate lower text = Inr bse"
      "0 \<le> coefficient bse" "coefficient bse \<le> 1"
      using v1_keyword_calculate_total by blast
    define msg where "msg = interpret_coefficient (coefficient bse) cx @ NL @ NL @
                 ''Creative Expression Recognized:'' @ NL @
                 ''Your artistic vision is respected. No reframing suggested.'' @ NL @
                 ''The consciousness patterns detected are appropriate for '' @
                 ContentType_value (content_type cx) @ '' content.''"
    have r: "get_unity_report lower text uc True =
       Inr \<lparr>coefficient = coefficient bse, analysis_method = analysis_method bse,
            separation_hits = separation_hits bse, unity_hits = unity_hits bse,
            conscious_reframing = msg\<rparr>"
      using v
      by (simp add: get_unity_report_def contextualize_analysis_def
          contextualize_coefficient_def d g make_UnityReport_def msg_def Let_def)
    have "sublist ''Your artistic vision is respected. No reframing suggested.''
            ((interpret_coefficient (coefficient bse) cx @ NL @ NL @
                 ''Creative Expression Recognized:'' @ NL) @
              ''Your artistic vision is respected. No reframing suggested.'' @
             (NL @ ''The consciousness patterns detected are appropriate for '' @
                 ContentType_value (content_type cx) @ '' content.''))"
      by (rule sublist_appendI)
    then have s: "sublist ''Your artistic vision is respected. No reframing suggested.'' msg"
      by (simp add: msg_def)
    from r s show ?thesis by (simp add: msg_def)
  qed
  from a b g e show ?thesis by blast
qed

text \<open>
  An instance: a horror context with coefficient 0, and the report for the empty text
  with the user context \<open>{type: horror, creative_license: True}\<close>.
\<close>

theorem creative_license_messages_witness:
  "interpret_coefficient 0
     \<lparr>content_type = HORROR, genre = PyNone, intent = PyNone, audience = PyNone,
      creative_license = PyBool True, confidence = 1,
      metadata = [(''type'', PyStr ''horror''), (''creative_license'', PyBool True)]\<rparr>
   = ''Unity Coefficient: 0.00 (Genre: Horror Fiction)'' @ NL @
     ''Low coefficient expected for this genre. Creative license respected.''
   \<and> (\<exists>rep. get_unity_report ascii_lower []
               (Some [(''type'', PyStr ''horror''), (''creative_license'', PyBool True)]) True
             = Inr rep
          \<and> conscious_reframing rep =
              ''Unity Coefficient: 0.50 (Genre: Horror Fiction)'' @ NL @
              ''Low coefficient expected for this genre. Creative license respected.'' @
              NL @ NL @ ''Creative Expression Recognized:'' @ NL @
              ''Your artistic vision is respected. No reframing suggested.'' @ NL @
              ''The consciousness patterns detected are appropriate for horror content.'')"
proof -
  define cx where "cx =
     \<lparr>content_type = HORROR, genre = PyNone, intent = PyNone, audience = PyNone,
      creative_license = PyBool True, confidence = 1,
      metadata = [(''type'', PyStr ''horror''), (''creative_license'', PyBool True)]\<rparr>"
  have t: "truthy (creative_license cx)" by (simp add: cx_def)
  have d: "detect ascii_lower [] (Some [(''type'', PyStr ''horror''), (''creative_license'', PyBool True)]) = cx"
    by (simp add: detect_def build_from_user_context_def dict_get_def
        ContentType_of_value_def ContentType_members_def cx_def)
  have c: "coefficient rep = 1 / 2"
    if "get_unity_report ascii_lower [] (Some [(''type'', PyStr ''horror''), (''creative_license'', PyBool True)]) True = Inr rep"
    for rep
    using that
    by (auto simp: get_unity_report_def v1_keyword_calculate_empty ascii_lower_Nil
          make_UnityReport_def Let_def)
  have h: "content_type cx = HORROR" by (simp add: cx_def)
  note m0 = creative_license_messages [OF t, of 0 "[]" "[]" "[]" False PyNone ascii_lower "[]"
        "Some [(''type'', PyStr ''horror''), (''creative_license'', PyBool True)]"]
  note m1 = creative_license_messages [OF t, of "1 / 2" "[]" "[]" "[]" False PyNone ascii_lower
        "[]" None]
  have i0: "interpret_coefficient 0 cx
   = ''Unity Coefficient: 0.00 (Genre: Horror Fiction)'' @ NL @
     ''Low coefficient expected for this genre. Creative license respected.''"
    using m0 [THEN conjunct1] by (simp add: h format_2f_zero)
  have i1: "interpret_coefficient (1 / 2) cx
   = ''Unity Coefficient: 0.50 (Genre: Horror Fiction)'' @ NL @
     ''Low coefficient expected for this genre. Creative license respected.''"
    using m1 [THEN conjunct1] by (simp add: h format_2f_half)
  from m0 [THEN conjunct2, THEN conjunct2, THEN conjunct2] d
  obtain rep where
    r: "get_unity_report ascii_lower [] (Some [(''type'', PyStr ''horror''), (''creative_license'', PyBool True)]) True = Inr rep"
    and s: "conscious_reframing rep =
                 interpret_coefficient (coefficient rep) cx @ NL @ NL @
                 ''Creative Expression Recognized:'' @ NL @
                 ''Your artistic vision is respected. No reframing suggested.'' @ NL @
                 ''The consciousness patterns detected are appropriate for '' @
                 ContentType_value (content_type cx) @ '' content.''"
    by blast
  have "conscious_reframing rep =
              ''Unity Coefficient: 0.50 (Genre: Horror Fiction)'' @ NL @
              ''Low coefficient expected for this genre. Creative license respected.'' @
              NL @ NL @ ''Creative Expression Recognized:'' @ NL @
              ''Your artistic vision is respected. No reframing suggested.'' @ NL @
              ''The consciousness patterns detected are appropriate for horror content.''"
    unfolding s c [OF r] i1 h by simp
  with r i0 show ?thesis
    unfolding cx_def by blast
qed


lemma td_quarter: "to_double (1 / 4) = 1 / 4"
  by (simp add: to_double_def floor_log2_def log2_down.simps pow2_def round_half_even_def
      Let_def)

lemma format_2f_quarter: "format_2f (1 / 4) = ''0.25''"
  by (simp add: format_2f_def td_quarter round_half_even_def show_nat.simps digit_char_def
      Let_def)

text \<open>
  The claim as stated has the interpretation name the genre. A context of the content
  type fiction whose genre is horror, as the detector builds it from the user context
  \<open>{type: fiction, genre: horror, creative_license: True}\<close>, is given the label of the
  artistic expression, and its interpretation does not mention horror.
\<close>

theorem genre_not_named_counterexample:
  "detect ascii_lower []
     (Some [(''type'', PyStr ''fiction''), (''genre'', PyStr ''horror''),
            (''creative_license'', PyBool True)])
   = \<lparr>content_type = FICTION, genre = PyStr ''horror'', intent = PyNone, audience = PyNone,
      creative_license = PyBool True, confidence = 1,
      metadata = [(''type'', PyStr ''fiction''), (''genre'', PyStr ''horror''),
                  (''creative_license'', PyBool True)]\<rparr>
   \<and> interpret_coefficient (1 / 4)
        \<lparr>content_type = FICTION, genre = PyStr ''horror'', intent = PyNone, audience = PyNone,
         creative_license = PyBool True, confidence = 1,
         metadata = [(''type'', PyStr ''fiction''), (''genre'', PyStr ''horror''),
                     (''creative_license'', PyBool True)]\<rparr>
      = ''Unity Coefficient: 0.25 (Artistic Expression)'' @ NL @
        ''Creative license recognized. No restrictions applied.''
   \<and> \<not> sublist ''orror''
        (''Unity Coefficient: 0.25 (Artistic Expression)'' @ NL @
         ''Creative license recognized. No restrictions applied.'')"
  by (simp add: detect_def build_from_user_context_def dict_get_def ContentType_of_value_def
      ContentType_members_def interpret_coefficient_def format_2f_quarter NL_def
      sublist_Cons_right)

section \<open>When reframing is suggested\<close>

lemma detect_content_type_six:
  "fst (detect_content_type t) \<in> {UNKNOWN, FICTION, HORROR, COMEDY, TECHNICAL, ACADEMIC, ARTISTIC}"
proof (cases "\<forall>(c, s) \<in> set (category_scores t). s < 1 / 10")
  case True
  then show ?thesis by (simp add: detect_content_type_unknown)
next
  case False
  then obtain c0 s0 where "(c0, s0) \<in> set (category_scores t)" "\<not> s0 < 1 / 10"
    by auto
  then have "\<exists>(c, s) \<in> set (category_scores t). 1 / 10 \<le> s"
    by (intro bexI [of _ "(c0, s0)"]) auto
  then obtain c s where "(c, s) \<in> set (category_scores t)"
    and "detect_content_type t = (c, min s 1)"
    using detect_content_type_best [of t] by blast
  then show ?thesis by (auto simp: category_scores_def)
qed

lemma detect_never_business: "content_type (detect lower t None) \<noteq> BUSINESS"
proof -
  have "content_type (detect lower t None) = fst (detect_content_type (lower t))"
    by (simp add: detect_def detect_heuristic_def Let_def split: prod.split)
  then show ?thesis
    using detect_content_type_six [of "lower t"] by auto
qed

lemma rivalry_text_lower:
  "ascii_lower ''dominate competition enemy love love''
   = ''dominate competition enemy love love''"
  by (simp add: ascii_lower_def ascii_lower_char_def)

lemma rivalry_text_separation:
  "count_markers SEPARATION_MARKERS ''dominate competition enemy love love''
   = [(''enemy'', 1), (''dominate'', 1), (''competition'', 1)]"
proof -
  have "count_markers SEPARATION_MARKERS ''dominate competition enemy love love''
        = map (\<lambda>m. (m, str_count ''dominate competition enemy love love'' m))
            [''enemy'', ''dominate'', ''competition'']"
    by (rule count_markers_eval [where cs = "''dominate cpyelv''"])
       (simp_all add: SEPARATION_MARKERS_def str_count.simps)
  then show ?thesis by (simp add: str_count.simps)
qed

lemma rivalry_text_unity:
  "count_markers UNITY_MARKERS ''dominate competition enemy love love'' = [(''love'', 2)]"
proof -
  have "count_markers UNITY_MARKERS ''dominate competition enemy love love''
        = map (\<lambda>m. (m, str_count ''dominate competition enemy love love'' m)) [''love'']"
    by (rule count_markers_eval [where cs = "''dominate cpyelv''"])
       (simp_all add: UNITY_MARKERS_def str_count.simps)
  then show ?thesis by (simp add: str_count.simps)
qed

lemma rivalry_text_report:
  "v1_keyword_calculate ascii_lower ''dominate competition enemy love love'' =
     Inr \<lparr>coefficient = 2 / 5, analysis_method = ''V1: Keyword Lexicon Density'',
          separation_hits = [(''enemy'', 1), (''dominate'', 1), (''competition'', 1)],
          unity_hits = [(''love'', 2)],
          conscious_reframing = SEPARATION_MESSAGE\<rparr>"
  by (simp add: v1_keyword_calculate_def rivalry_text_lower rivalry_text_unity
      rivalry_text_separation calculate_from_hits_eq sum_values_def td_two_fifths
      py_round_td_two_fifths)

lemma rivalry_text_detect:
  "detect ascii_lower ''dominate competition enemy love love'' None =
     \<lparr>content_type = UNKNOWN, genre = PyNone, intent = PyNone, audience = PyNone,
      creative_license = PyBool False, confidence = 0, metadata = []\<rparr>"
proof -
  have "category_scores ''dominate competition enemy love love'' =
     [(FICTION, 0), (HORROR, 0), (COMEDY, 0), (TECHNICAL, 0), (ACADEMIC, 0), (ARTISTIC, 0)]"
    by (rule category_scores_none [where cs = "''dominate cpyelv''"])
       (simp_all add: FICTION_INDICATORS_def HORROR_INDICATORS_def COMEDY_INDICATORS_def
          TECHNICAL_INDICATORS_def ACADEMIC_INDICATORS_def ARTISTIC_INDICATORS_def
          sublist_Cons_right)
  then show ?thesis
    by (simp add: detect_def rivalry_text_lower detect_heuristic_no_indicator)
qed


text \<open>
  Claim C5, as amended. When the creative-license flag of the context is false,
  reframing is deemed appropriate exactly when the content type is business or
  technical and the coefficient is below \<open>0.5\<close>, or the content type is neither and the
  coefficient is below \<open>0.3\<close>; when the flag is true, reframing is never deemed
  appropriate. The contextual analysis reports this decision and the flag of the
  detected or supplied context. The heuristic detection never yields the business type.
  A text whose context is supplied as business without creative license has reframing
  deemed appropriate for every coefficient below \<open>0.5\<close>, and no creative-license flag.
\<close>

theorem reframing_policy:
  "(\<not> truthy (creative_license cx) \<longrightarrow>
      should_suggest_reframing c cx =
        ((content_type cx \<in> {BUSINESS, TECHNICAL} \<and> c < 1 / 2)
         \<or> (content_type cx \<notin> {BUSINESS, TECHNICAL} \<and> c < 3 / 10)))
   \<and> (truthy (creative_license cx) \<longrightarrow> \<not> should_suggest_reframing c cx)
   \<and> reframing_appropriate (contextualize_analysis lower c text uc)
       = should_suggest_reframing c (detect lower text uc)
   \<and> creative_license_respected (contextualize_analysis lower c text uc)
       = creative_license (detect lower text uc)
   \<and> content_type (detect lower text None) \<noteq> BUSINESS
   \<and> (d \<noteq> [] \<and> dict_get d ''type'' (PyStr ''unknown'') = PyStr ''business''
        \<and> \<not> truthy (dict_get d ''creative_license'' (PyBool False)) \<and> c < 1 / 2 \<longrightarrow>
        reframing_appropriate (contextualize_analysis lower c text (Some d))
        \<and> \<not> truthy (creative_license_respected (contextualize_analysis lower c text (Some d))))"
proof -
  have 1: "\<not> truthy (creative_license cx) \<longrightarrow>
      should_suggest_reframing c cx =
        ((content_type cx \<in> {BUSINESS, TECHNICAL} \<and> c < 1 / 2)
         \<or> (content_type cx \<notin> {BUSINESS, TECHNICAL} \<and> c < 3 / 10))"
    by (auto simp: should_suggest_reframing_def)
  have 2: "truthy (creative_license cx) \<longrightarrow> \<not> should_suggest_reframing c cx"
    by (simp add: should_suggest_reframing_def)
  have 3: "reframing_appropriate (contextualize_analysis lower c text uc)
       = should_suggest_reframing c (detect lower text uc)"
    and 4: "creative_license_respected (contextualize_analysis lower c text uc)
       = creative_license (detect lower text uc)"
    by (simp_all add: contextualize_analysis_def contextualize_coefficient_def Let_def)
  have 5: "content_type (detect lower text None) \<noteq> BUSINESS"
    by (rule detect_never_business)
  have 6: "reframing_appropriate (contextualize_analysis lower c text (Some d))
        \<and> \<not> truthy (creative_license_respected (contextualize_analysis lower c text (Some d)))"
    if "d \<noteq> []" "dict_get d ''type'' (PyStr ''unknown'') = PyStr ''business''"
      "\<not> truthy (dict_get d ''creative_license'' (PyBool False))" "c < 1 / 2"
  proof -
    have b: "ContentType_of_value (PyStr ''business'') = Some BUSINESS"
      using ContentType_of_value_value [of BUSINESS] by simp
    show ?thesis
      using that
      by (simp add: contextualize_analysis_def contextualize_coefficient_def Let_def
          detect_def build_from_user_context_def should_suggest_reframing_def b)
  qed
  from 1 2 3 4 5 6 show ?thesis by blast
qed

text \<open>
  Instances: the text of the three markers with the context \<open>{type: business}\<close> and the
  coefficient \<open>0.4\<close>; an unknown context at \<open>0.25\<close> and at \<open>0.4\<close>; a technical context
  at \<open>0.4\<close>; a horror context with creative license at \<open>0\<close>.
\<close>

theorem reframing_policy_witness:
  "reframing_appropriate
     (contextualize_analysis ascii_lower (2 / 5) ''dominate competition enemy love love''
        (Some [(''type'', PyStr ''business'')]))
   \<and> \<not> truthy (creative_license_respected
        (contextualize_analysis ascii_lower (2 / 5) ''dominate competition enemy love love''
           (Some [(''type'', PyStr ''business'')])))
   \<and> should_suggest_reframing (1 / 4)
        \<lparr>content_type = UNKNOWN, genre = PyNone, intent = PyNone, audience = PyNone,
         creative_license = PyBool False, confidence = 0, metadata = []\<rparr>
   \<and> \<not> should_suggest_reframing (2 / 5)
        \<lparr>content_type = UNKNOWN, genre = PyNone, intent = PyNone, audience = PyNone,
         creative_license = PyBool False, confidence = 0, metadata = []\<rparr>
   \<and> should_suggest_reframing (2 / 5)
        \<lparr>content_type = TECHNICAL, genre = PyNone, intent = PyNone, audience = PyNone,
         creative_license = PyBool False, confidence = 1, metadata = []\<rparr>
   \<and> \<not> should_suggest_reframing 0
        \<lparr>content_type = HORROR, genre = PyNone, intent = PyNone, audience = PyNone,
         creative_license = PyBool True, confidence = 1, metadata = []\<rparr>"
  using reframing_policy
      [of "\<lparr>content_type = UNKNOWN, genre = PyNone, intent = PyNone, audience = PyNone,
            creative_license = PyBool False, confidence = 0, metadata = []\<rparr>"
          "1 / 4" ascii_lower "[]" None "[(''type'', PyStr ''business'')]"]
    reframing_policy
      [of "\<lparr>content_type = UNKNOWN, genre = PyNone, intent = PyNone, audience = PyNone,
            creative_license = PyBool False, confidence = 0, metadata = []\<rparr>"
          "2 / 5" ascii_lower "''dominate competition enemy love love''" None
          "[(''type'', PyStr ''business'')]"]
    reframing_policy
      [of "\<lparr>content_type = TECHNICAL, genre = PyNone, intent = PyNone, audience = PyNone,
            creative_license = PyBool False, confidence = 1, metadata = []\<rparr>"
          "2 / 5" ascii_lower "[]" None "[(''type'', PyStr ''business'')]"]
    reframing_policy
      [of "\<lparr>content_type = HORROR, genre = PyNone, intent = PyNone, audience = PyNone,
            creative_license = PyBool True, confidence = 1, metadata = []\<rparr>"
          0 ascii_lower "[]" None "[(''type'', PyStr ''business'')]"]
  by (simp add: dict_get_def)

text \<open>
  The claim as stated has every business-flavoured text with the markers \<open>dominate\<close>,
  \<open>competition\<close> and \<open>enemy\<close> and a coefficient below \<open>0.5\<close> deemed appropriate for
  reframing. The text \<open>dominate competition enemy love love\<close> has these three separation
  hits, two unity hits and the coefficient \<open>0.4\<close>; the detection, which has no indicators
  of business, finds the unknown type, and reframing is not deemed appropriate.
\<close>

theorem business_text_not_reframed_counterexample:
  "get_unity_report ascii_lower ''dominate competition enemy love love'' None False =
     Inr \<lparr>coefficient = 2 / 5, analysis_method = ''V1: Keyword Lexicon Density'',
          separation_hits = [(''enemy'', 1), (''dominate'', 1), (''competition'', 1)],
          unity_hits = [(''love'', 2)],
          conscious_reframing = SEPARATION_MESSAGE\<rparr>
   \<and> \<not> reframing_appropriate
         (contextualize_analysis ascii_lower (2 / 5) ''dominate competition enemy love love''
            None)
   \<and> content_type (cd_context
         (contextualize_analysis ascii_lower (2 / 5) ''dominate competition enemy love love''
            None))
       = UNKNOWN"
  by (simp add: get_unity_report_def rivalry_text_report contextualize_analysis_def
      contextualize_coefficient_def rivalry_text_detect should_suggest_reframing_def Let_def)

section \<open>The two lexicons\<close>

lemma separation_repeats:
  "distinct (remove1 ''impossible'' SEPARATION_MARKERS)
   \<and> count_list SEPARATION_MARKERS ''impossible'' = 2"
  by (simp add: SEPARATION_MARKERS_def)

lemma unity_repeats:
  "distinct (remove1 ''harmony'' (remove1 ''together'' (remove1 ''appreciation''
      (remove1 ''balance'' UNITY_MARKERS))))
   \<and> count_list UNITY_MARKERS ''harmony'' = 2
   \<and> count_list UNITY_MARKERS ''together'' = 2
   \<and> count_list UNITY_MARKERS ''appreciation'' = 2
   \<and> count_list UNITY_MARKERS ''balance'' = 2"
  by (simp add: UNITY_MARKERS_def)

lemma lexicons_lowercase:
  "list_all (\<lambda>m. ascii_lower m = m) SEPARATION_MARKERS"
  "list_all (\<lambda>m. ascii_lower m = m) UNITY_MARKERS"
  by (simp_all add: SEPARATION_MARKERS_def UNITY_MARKERS_def ascii_lower_def
      ascii_lower_char_def)

lemma lexicons_ascii:
  "list_all (list_all (\<lambda>c. (of_char c :: nat) < 128)) SEPARATION_MARKERS"
  "list_all (list_all (\<lambda>c. (of_char c :: nat) < 128)) UNITY_MARKERS"
  by (simp_all add: SEPARATION_MARKERS_def UNITY_MARKERS_def)

lemma lexicons_disjoint: "set SEPARATION_MARKERS \<inter> set UNITY_MARKERS = {}"
  unfolding SEPARATION_MARKERS_def UNITY_MARKERS_def by simp

text \<open>
  Claim C6, as amended. Both lexicons are sequences of lowercase strings: every marker
  consists of ASCII characters and is left as it is by the case folding. The two
  lexicons have no marker in common. The separation lexicon lists \<open>impossible\<close> twice
  and every other marker once; the unity lexicon lists \<open>harmony\<close>, \<open>together\<close>,
  \<open>appreciation\<close> and \<open>balance\<close> twice each and every other marker once.
\<close>

theorem lexicons_spec:
  "list_all (list_all (\<lambda>c. (of_char c :: nat) < 128)) SEPARATION_MARKERS
   \<and> list_all (list_all (\<lambda>c. (of_char c :: nat) < 128)) UNITY_MARKERS
   \<and> list_all (\<lambda>m. ascii_lower m = m) SEPARATION_MARKERS
   \<and> list_all (\<lambda>m. ascii_lower m = m) UNITY_MARKERS
   \<and> set SEPARATION_MARKERS \<inter> set UNITY_MARKERS = {}
   \<and> distinct (remove1 ''impossible'' SEPARATION_MARKERS)
   \<and> count_list SEPARATION_MARKERS ''impossible'' = 2
   \<and> distinct (remove1 ''harmony'' (remove1 ''together'' (remove1 ''appreciation''
        (remove1 ''balance'' UNITY_MARKERS))))
   \<and> count_list UNITY_MARKERS ''harmony'' = 2
   \<and> count_list UNITY_MARKERS ''together'' = 2
   \<and> count_list UNITY_MARKERS ''appreciation'' = 2
   \<and> count_list UNITY_MARKERS ''balance'' = 2"
  using lexicons_ascii lexicons_lowercase lexicons_disjoint separation_repeats unity_repeats
  by blast

text \<open>The claim as stated has no entry repeated in either lexicon.\<close>

theorem lexicon_repeats_counterexample:
  "\<not> distinct SEPARATION_MARKERS \<and> \<not> distinct UNITY_MARKERS"
proof -
  have e: "SEPARATION_MARKERS ! 2 = SEPARATION_MARKERS ! 55"
    and l: "length SEPARATION_MARKERS = 100"
    by (simp_all add: SEPARATION_MARKERS_def)
  have s: "\<not> distinct SEPARATION_MARKERS"
  proof
    assume "distinct SEPARATION_MARKERS"
    then have "(SEPARATION_MARKERS ! 2 = SEPARATION_MARKERS ! 55) = ((2::nat) = 55)"
      by (rule nth_eq_iff_index_eq) (simp_all add: l)
    with e show False by simp
  qed
  have f: "UNITY_MARKERS ! 6 = UNITY_MARKERS ! 81"
    and k: "length UNITY_MARKERS = 155"
    by (simp_all add: UNITY_MARKERS_def)
  have u: "\<not> distinct UNITY_MARKERS"
  proof
    assume "distinct UNITY_MARKERS"
    then have "(UNITY_MARKERS ! 6 = UNITY_MARKERS ! 81) = ((6::nat) = 81)"
      by (rule nth_eq_iff_index_eq) (simp_all add: k)
    with f show False by simp
  qed
  from s u show ?thesis by simp
qed

end
